theory Spec2Isabelle
  imports Complex_Main "HOL-Library.Word" "HOL-Library.Monad_Syntax"
begin

section \<open>SceneManager.cpp: data model\<close>

text \<open>
  The scene manager of the 3D scene: a texture table of 16 entries, a vector of object
  materials, a pointer to the shader manager (the sink of named uniforms) and the mesh
  library. The C++ \<^verbatim>\<open>float\<close> values are modelled by the real numbers their literals
  denote, and the arithmetic of glm by real arithmetic: rounding is not modelled.
  A result \<open>None\<close> stands for undefined behaviour of the C++ program (a write or read
  past the 16 entries of \<^verbatim>\<open>m_textureIDs\<close>, a call through a NULL
  \<^verbatim>\<open>m_pShaderManager\<close>). Console output is not modelled.
\<close>

subsection \<open>glm vectors and matrices\<close>

datatype vec2 = Vec2 real real
datatype vec3 = Vec3 real real real
datatype vec4 = Vec4 real real real real

text \<open>A \<^verbatim>\<open>glm::mat4\<close> is column-major: four column vectors.\<close>

datatype mat4 = Mat4 vec4 vec4 vec4 vec4

fun vec4_scale :: "vec4 \<Rightarrow> real \<Rightarrow> vec4" where
  "vec4_scale (Vec4 x y z w) k = Vec4 (x * k) (y * k) (z * k) (w * k)"

fun vec4_add :: "vec4 \<Rightarrow> vec4 \<Rightarrow> vec4" where
  "vec4_add (Vec4 x y z w) (Vec4 x' y' z' w') = Vec4 (x + x') (y + y') (z + z') (w + w')"

text \<open>\<^verbatim>\<open>glm::mat4(1.0f)\<close>, the identity.\<close>

definition mat4_identity :: mat4 where
  "mat4_identity = Mat4 (Vec4 1 0 0 0) (Vec4 0 1 0 0) (Vec4 0 0 1 0) (Vec4 0 0 0 1)"

text \<open>
  The linear combination of the columns of a matrix with the components of a vector:
  one column of glm's \<^verbatim>\<open>operator*\<close> on two \<^verbatim>\<open>mat4\<close>.
\<close>

fun mat4_column :: "mat4 \<Rightarrow> vec4 \<Rightarrow> vec4" where
  "mat4_column (Mat4 a0 a1 a2 a3) (Vec4 x y z w) =
     vec4_add (vec4_add (vec4_add (vec4_scale a0 x) (vec4_scale a1 y)) (vec4_scale a2 z))
       (vec4_scale a3 w)"

fun mat4_times :: "mat4 \<Rightarrow> mat4 \<Rightarrow> mat4" where
  "mat4_times m1 (Mat4 b0 b1 b2 b3) =
     Mat4 (mat4_column m1 b0) (mat4_column m1 b1) (mat4_column m1 b2) (mat4_column m1 b3)"

text \<open>\<^verbatim>\<open>glm::radians\<close>: degrees to radians.\<close>

definition glm_radians :: "real \<Rightarrow> real" where
  "glm_radians degrees = degrees * (pi / 180)"

text \<open>\<^verbatim>\<open>glm::normalize\<close>: \<^verbatim>\<open>v * inversesqrt(dot(v, v))\<close>.\<close>

fun glm_normalize :: "vec3 \<Rightarrow> vec3" where
  "glm_normalize (Vec3 x y z) =
     (let k = 1 / sqrt (x * x + y * y + z * z) in Vec3 (x * k) (y * k) (z * k))"

text \<open>\<^verbatim>\<open>glm::scale(v)\<close> of gtx/transform.hpp: \<^verbatim>\<open>scale(mat4(1), v)\<close>, which scales the first
  three columns of the matrix by the components of \<open>v\<close>.\<close>

fun glm_scale_m :: "mat4 \<Rightarrow> vec3 \<Rightarrow> mat4" where
  "glm_scale_m (Mat4 m0 m1 m2 m3) (Vec3 x y z) =
     Mat4 (vec4_scale m0 x) (vec4_scale m1 y) (vec4_scale m2 z) m3"

definition glm_scale :: "vec3 \<Rightarrow> mat4" where
  "glm_scale v = glm_scale_m mat4_identity v"

text \<open>\<^verbatim>\<open>glm::translate(v)\<close>: \<^verbatim>\<open>translate(mat4(1), v)\<close>, which replaces the last column by
  \<^verbatim>\<open>m[0] * v[0] + m[1] * v[1] + m[2] * v[2] + m[3]\<close>.\<close>

fun glm_translate_m :: "mat4 \<Rightarrow> vec3 \<Rightarrow> mat4" where
  "glm_translate_m (Mat4 m0 m1 m2 m3) (Vec3 x y z) =
     Mat4 m0 m1 m2
       (vec4_add (vec4_add (vec4_add (vec4_scale m0 x) (vec4_scale m1 y)) (vec4_scale m2 z)) m3)"

definition glm_translate :: "vec3 \<Rightarrow> mat4" where
  "glm_translate v = glm_translate_m mat4_identity v"

text \<open>\<^verbatim>\<open>glm::rotate(angle, v)\<close>: \<^verbatim>\<open>rotate(mat4(1), angle, v)\<close>, the rotation by
  \<open>angle\<close> radians about the normalised axis \<open>v\<close>, built as glm builds it.\<close>

fun glm_rotate_m :: "mat4 \<Rightarrow> real \<Rightarrow> vec3 \<Rightarrow> mat4" where
  "glm_rotate_m (Mat4 m0 m1 m2 m3) a v =
     (let c = cos a; s = sin a in
      case glm_normalize v of Vec3 ax ay az \<Rightarrow>
        (let t0 = (1 - c) * ax; t1 = (1 - c) * ay; t2 = (1 - c) * az;
             r00 = c + t0 * ax; r01 = t0 * ay + s * az; r02 = t0 * az - s * ay;
             r10 = t1 * ax - s * az; r11 = c + t1 * ay; r12 = t1 * az + s * ax;
             r20 = t2 * ax + s * ay; r21 = t2 * ay - s * ax; r22 = c + t2 * az
         in Mat4
           (vec4_add (vec4_add (vec4_scale m0 r00) (vec4_scale m1 r01)) (vec4_scale m2 r02))
           (vec4_add (vec4_add (vec4_scale m0 r10) (vec4_scale m1 r11)) (vec4_scale m2 r12))
           (vec4_add (vec4_add (vec4_scale m0 r20) (vec4_scale m1 r21)) (vec4_scale m2 r22))
           m3))"

definition glm_rotate :: "real \<Rightarrow> vec3 \<Rightarrow> mat4" where
  "glm_rotate a v = glm_rotate_m mat4_identity a v"

subsection \<open>The graphics context\<close>

text \<open>
  The shader manager and the mesh library act on one process-wide graphics context. The
  context is modelled by the ordered list of the calls made on it, oldest first, and the
  number of texture names handed out so far.
\<close>

datatype uniform =
    UBool bool
  | UInt int
  | UFloat real
  | UVec2 vec2
  | UVec3 vec3
  | UVec4 vec4
  | UMat4 mat4
  | USampler2D int

datatype mesh_kind = Plane | Box | Sphere | Cone | Cylinder | TaperedCylinder | Pyramid3

datatype gl_call =
    Uniform string uniform
  | GenTextures "32 word"
  | DeleteTextures "32 word"
  | BindTexture "32 word"
  | ActiveTexture nat
  | TexParameteri string string
  | TexImage2D string int int
  | GenerateMipmap
  | LoadMesh mesh_kind
  | DrawMesh mesh_kind

text \<open>What the image decoder \<^verbatim>\<open>stbi_load\<close> returns for a file it can read.\<close>

record image =
  width :: int
  height :: int
  colorChannels :: int

type_synonym decoder = "string \<Rightarrow> image option"

record TEXTURE_INFO =
  tag :: string
  ID :: "32 word"

record OBJECT_MATERIAL =
  diffuseColor :: vec3
  specularColor :: vec3
  shininess :: real
  material_tag :: string

text \<open>
  The members of the class, with the graphics context. \<open>m_pShaderManager\<close> is a
  pointer: \<open>None\<close> is NULL. \<open>m_basicMeshes\<close> is allocated by the constructor and never
  NULL afterwards; its calls are recorded in the context. \<open>uninitialised\<close> is what a
  local \<^verbatim>\<open>OBJECT_MATERIAL\<close> holds before anything is assigned to it (the source declares
  one without an initialiser).
\<close>

record scene =
  m_pShaderManager :: "nat option"
  m_textureIDs :: "TEXTURE_INFO list"
  m_loadedTextures :: int
  m_objectMaterials :: "OBJECT_MATERIAL list"
  gl_calls :: "gl_call list"
  gl_generated :: nat
  uninitialised :: OBJECT_MATERIAL

definition g_ModelName :: string where "g_ModelName = ''model''"
definition g_ColorValueName :: string where "g_ColorValueName = ''objectColor''"
definition g_TextureValueName :: string where "g_TextureValueName = ''objectTexture''"
definition g_UseTextureName :: string where "g_UseTextureName = ''bUseTexture''"
definition g_UseLightingName :: string where "g_UseLightingName = ''bUseLighting''"

definition gl :: "gl_call \<Rightarrow> scene \<Rightarrow> scene" where
  "gl c s = s\<lparr>gl_calls := gl_calls s @ [c]\<rparr>"

text \<open>\<^verbatim>\<open>glGenTextures(1, &id)\<close>: the context hands out a name it has not handed out
  before; the names are taken to be 1, 2, 3, ... in turn.\<close>

definition glGenTextures :: "scene \<Rightarrow> 32 word \<times> scene" where
  "glGenTextures s =
     (let name = word_of_nat (Suc (gl_generated s)) in
      (name, gl (GenTextures name) (s\<lparr>gl_generated := Suc (gl_generated s)\<rparr>)))"

text \<open>
  Modelled from the spec: the methods of the ShaderManager class (ShaderManager.h), the
  shader parameter sink, which "accepts named uniform values (scalars, vectors, matrices,
  booleans, sampler indices) to be used by the next draw call". Each method records the
  name and the value in the graphics context.
\<close>

definition setMat4Value :: "string \<Rightarrow> mat4 \<Rightarrow> scene \<Rightarrow> scene" where
  "setMat4Value name m = gl (Uniform name (UMat4 m))"

definition setIntValue :: "string \<Rightarrow> int \<Rightarrow> scene \<Rightarrow> scene" where
  "setIntValue name i = gl (Uniform name (UInt i))"

definition setBoolValue :: "string \<Rightarrow> bool \<Rightarrow> scene \<Rightarrow> scene" where
  "setBoolValue name b = gl (Uniform name (UBool b))"

definition setFloatValue :: "string \<Rightarrow> real \<Rightarrow> scene \<Rightarrow> scene" where
  "setFloatValue name x = gl (Uniform name (UFloat x))"

definition setVec2Value :: "string \<Rightarrow> vec2 \<Rightarrow> scene \<Rightarrow> scene" where
  "setVec2Value name v = gl (Uniform name (UVec2 v))"

definition setVec3Value :: "string \<Rightarrow> vec3 \<Rightarrow> scene \<Rightarrow> scene" where
  "setVec3Value name v = gl (Uniform name (UVec3 v))"

definition setVec4Value :: "string \<Rightarrow> vec4 \<Rightarrow> scene \<Rightarrow> scene" where
  "setVec4Value name v = gl (Uniform name (UVec4 v))"

definition setSampler2DValue :: "string \<Rightarrow> int \<Rightarrow> scene \<Rightarrow> scene" where
  "setSampler2DValue name i = gl (Uniform name (USampler2D i))"

text \<open>A call \<^verbatim>\<open>m_pShaderManager->f(...)\<close> with no NULL check before it.\<close>

definition arrow :: "(scene \<Rightarrow> scene) \<Rightarrow> scene \<Rightarrow> scene option" where
  "arrow f s = (case m_pShaderManager s of None \<Rightarrow> None | Some p \<Rightarrow> Some (f s))"

text \<open>
  Modelled from the spec: the methods of the ShapeMeshes class, the mesh library, which
  "exposes load and draw operations per shape kind". Each call is recorded in the
  graphics context.
\<close>

definition LoadMesh_call :: "mesh_kind \<Rightarrow> scene \<Rightarrow> scene" where
  "LoadMesh_call k = gl (LoadMesh k)"

definition DrawMesh_call :: "mesh_kind \<Rightarrow> scene \<Rightarrow> scene" where
  "DrawMesh_call k = gl (DrawMesh k)"

abbreviation "LoadPlaneMesh \<equiv> LoadMesh_call Plane"
abbreviation "LoadCylinderMesh \<equiv> LoadMesh_call Cylinder"
abbreviation "LoadConeMesh \<equiv> LoadMesh_call Cone"
abbreviation "LoadBoxMesh \<equiv> LoadMesh_call Box"
abbreviation "LoadSphereMesh \<equiv> LoadMesh_call Sphere"
abbreviation "LoadPyramid3Mesh \<equiv> LoadMesh_call Pyramid3"
abbreviation "LoadTaperedCylinderMesh \<equiv> LoadMesh_call TaperedCylinder"

abbreviation "DrawPlaneMesh \<equiv> DrawMesh_call Plane"
abbreviation "DrawCylinderMesh \<equiv> DrawMesh_call Cylinder"
abbreviation "DrawConeMesh \<equiv> DrawMesh_call Cone"
abbreviation "DrawBoxMesh \<equiv> DrawMesh_call Box"
abbreviation "DrawSphereMesh \<equiv> DrawMesh_call Sphere"
abbreviation "DrawPyramid3Mesh \<equiv> DrawMesh_call Pyramid3"
abbreviation "DrawTaperedCylinderMesh \<equiv> DrawMesh_call TaperedCylinder"

section \<open>SceneManager.cpp: the methods\<close>

text \<open>The constructor: 16 texture entries tagged \<^verbatim>\<open>"/0"\<close> with ID -1, none loaded.\<close>

definition SceneManager_ctor :: "nat option \<Rightarrow> OBJECT_MATERIAL \<Rightarrow> scene" where
  "SceneManager_ctor pShaderManager garbage =
     \<lparr>m_pShaderManager = pShaderManager,
      m_textureIDs = replicate 16 \<lparr>tag = ''/0'', ID = - 1\<rparr>,
      m_loadedTextures = 0,
      m_objectMaterials = [],
      gl_calls = [],
      gl_generated = 0,
      uninitialised = garbage\<rparr>"

text \<open>\<^verbatim>\<open>m_textureIDs[i]\<close>: defined inside the array only.\<close>

definition texture_at :: "scene \<Rightarrow> int \<Rightarrow> TEXTURE_INFO option" where
  "texture_at s i =
     (if 0 \<le> i \<and> nat i < length (m_textureIDs s) then Some (m_textureIDs s ! nat i) else None)"

definition CreateGLTexture :: "decoder \<Rightarrow> string \<Rightarrow> string \<Rightarrow> scene \<Rightarrow> (bool \<times> scene) option" where
  "CreateGLTexture stbi_load filename tg s =
     (case stbi_load filename of
        Some img \<Rightarrow>
          (let (textureID, s) = glGenTextures s;
               s = gl (BindTexture textureID) s;
               s = gl (TexParameteri ''GL_TEXTURE_WRAP_S'' ''GL_REPEAT'') s;
               s = gl (TexParameteri ''GL_TEXTURE_WRAP_T'' ''GL_REPEAT'') s;
               s = gl (TexParameteri ''GL_TEXTURE_MIN_FILTER'' ''GL_LINEAR'') s;
               s = gl (TexParameteri ''GL_TEXTURE_MAG_FILTER'' ''GL_LINEAR'') s;
               register = (\<lambda>s.
                 let s = gl GenerateMipmap s;
                     s = gl (BindTexture 0) s
                 in
                   if 0 \<le> m_loadedTextures s \<and> nat (m_loadedTextures s) < length (m_textureIDs s)
                   then Some (True,
                     s\<lparr>m_textureIDs := (m_textureIDs s)
                           [nat (m_loadedTextures s) := \<lparr>tag = tg, ID = textureID\<rparr>],
                       m_loadedTextures := m_loadedTextures s + 1\<rparr>)
                   else None)
           in
             if colorChannels img = 3 then
               register (gl (TexImage2D ''GL_RGB8'' (width img) (height img)) s)
             else if colorChannels img = 4 then
               register (gl (TexImage2D ''GL_RGBA8'' (width img) (height img)) s)
             else Some (False, s))
      | None \<Rightarrow> Some (False, s))"

text \<open>\<^verbatim>\<open>for (int i = 0; i < m_loadedTextures; i++)\<close> of BindGLTextures.\<close>

function BindGLTextures_for :: "int \<Rightarrow> scene \<Rightarrow> scene option" where
  "BindGLTextures_for i s =
     (if i < m_loadedTextures s then
        (case texture_at s i of
           None \<Rightarrow> None
         | Some t \<Rightarrow> BindGLTextures_for (i + 1) (gl (BindTexture (ID t)) (gl (ActiveTexture (nat i)) s)))
      else Some s)"
  by pat_completeness auto
termination
  by (relation "measure (\<lambda>(i, s). nat (m_loadedTextures s - i))")
    (auto simp: gl_def glGenTextures_def Let_def)

declare BindGLTextures_for.simps [simp del]

definition BindGLTextures :: "scene \<Rightarrow> scene option" where
  "BindGLTextures s = BindGLTextures_for 0 s"

text \<open>The loop of DestroyGLTextures: each turn calls \<^verbatim>\<open>glGenTextures(1, &m_textureIDs[i].ID)\<close>,
  which stores a new name in the entry.\<close>

function DestroyGLTextures_for :: "int \<Rightarrow> scene \<Rightarrow> scene option" where
  "DestroyGLTextures_for i s =
     (if i < m_loadedTextures s then
        (case texture_at s i of
           None \<Rightarrow> None
         | Some t \<Rightarrow>
             DestroyGLTextures_for (i + 1)
               ((snd (glGenTextures s))
                  \<lparr>m_textureIDs := (m_textureIDs s)[nat i := t\<lparr>ID := fst (glGenTextures s)\<rparr>]\<rparr>))
      else Some s)"
  by pat_completeness auto
termination
  by (relation "measure (\<lambda>(i, s). nat (m_loadedTextures s - i))")
    (auto simp: gl_def glGenTextures_def Let_def)

declare DestroyGLTextures_for.simps [simp del]

definition DestroyGLTextures :: "scene \<Rightarrow> scene option" where
  "DestroyGLTextures s = DestroyGLTextures_for 0 s"

text \<open>The while loop of FindTextureID, on its local variables.\<close>

function FindTextureID_while :: "string \<Rightarrow> scene \<Rightarrow> int \<Rightarrow> int \<Rightarrow> bool \<Rightarrow> int option" where
  "FindTextureID_while tg s textureID index bFound =
     (if index < m_loadedTextures s \<and> bFound = False then
        (case texture_at s index of
           None \<Rightarrow> None
         | Some t \<Rightarrow>
             if tag t = tg then FindTextureID_while tg s (sint (ID t)) index True
             else FindTextureID_while tg s textureID (index + 1) bFound)
      else Some textureID)"
  by pat_completeness auto
termination
  by (relation "measure (\<lambda>(tg, s, r, index, bFound).
        nat (m_loadedTextures s - index) + (if bFound then 0 else 1))") auto

declare FindTextureID_while.simps [simp del]

definition FindTextureID :: "string \<Rightarrow> scene \<Rightarrow> int option" where
  "FindTextureID tg s = FindTextureID_while tg s (- 1) 0 False"

text \<open>The while loop of FindTextureSlot, on its local variables.\<close>

function FindTextureSlot_while :: "string \<Rightarrow> scene \<Rightarrow> int \<Rightarrow> int \<Rightarrow> bool \<Rightarrow> int option" where
  "FindTextureSlot_while tg s textureSlot index bFound =
     (if index < m_loadedTextures s \<and> bFound = False then
        (case texture_at s index of
           None \<Rightarrow> None
         | Some t \<Rightarrow>
             if tag t = tg then FindTextureSlot_while tg s index index True
             else FindTextureSlot_while tg s textureSlot (index + 1) bFound)
      else Some textureSlot)"
  by pat_completeness auto
termination
  by (relation "measure (\<lambda>(tg, s, r, index, bFound).
        nat (m_loadedTextures s - index) + (if bFound then 0 else 1))") auto

declare FindTextureSlot_while.simps [simp del]

definition FindTextureSlot :: "string \<Rightarrow> scene \<Rightarrow> int option" where
  "FindTextureSlot tg s = FindTextureSlot_while tg s (- 1) 0 False"

text \<open>The while loop of FindMaterial: the index, the flag and the caller's material,
  which is written on a match only.\<close>

function FindMaterial_while ::
  "string \<Rightarrow> scene \<Rightarrow> int \<Rightarrow> bool \<Rightarrow> OBJECT_MATERIAL \<Rightarrow> OBJECT_MATERIAL" where
  "FindMaterial_while tg s index bFound material =
     (if index < int (length (m_objectMaterials s)) \<and> bFound = False then
        (if material_tag (m_objectMaterials s ! nat index) = tg then
           FindMaterial_while tg s index True
             (material\<lparr>diffuseColor := diffuseColor (m_objectMaterials s ! nat index),
                        specularColor := specularColor (m_objectMaterials s ! nat index),
                        shininess := shininess (m_objectMaterials s ! nat index)\<rparr>)
         else FindMaterial_while tg s (index + 1) bFound material)
      else material)"
  by pat_completeness auto
termination
  by (relation "measure (\<lambda>(tg, s, index, bFound, material).
        nat (int (length (m_objectMaterials s)) - index) + (if bFound then 0 else 1))") auto

declare FindMaterial_while.simps [simp del]

text \<open>FindMaterial returns its flag and the contents of the reference parameter.\<close>

definition FindMaterial :: "string \<Rightarrow> OBJECT_MATERIAL \<Rightarrow> scene \<Rightarrow> bool \<times> OBJECT_MATERIAL" where
  "FindMaterial tg material s =
     (if length (m_objectMaterials s) = 0 then (False, material)
      else (True, FindMaterial_while tg s 0 False material))"

definition SetTransformations :: "vec3 \<Rightarrow> real \<Rightarrow> real \<Rightarrow> real \<Rightarrow> vec3 \<Rightarrow> scene \<Rightarrow> scene" where
  "SetTransformations scaleXYZ XrotationDegrees YrotationDegrees ZrotationDegrees positionXYZ s =
     (let scale = glm_scale scaleXYZ;
          rotationX = glm_rotate (glm_radians XrotationDegrees) (Vec3 1 0 0);
          rotationY = glm_rotate (glm_radians YrotationDegrees) (Vec3 0 1 0);
          rotationZ = glm_rotate (glm_radians ZrotationDegrees) (Vec3 0 0 1);
          translation = glm_translate positionXYZ;
          modelView =
            mat4_times (mat4_times (mat4_times (mat4_times translation rotationZ) rotationY)
              rotationX) scale
      in if m_pShaderManager s \<noteq> None then setMat4Value g_ModelName modelView s else s)"

definition SetShaderColor :: "real \<Rightarrow> real \<Rightarrow> real \<Rightarrow> real \<Rightarrow> scene \<Rightarrow> scene" where
  "SetShaderColor redColorValue greenColorValue blueColorValue alphaValue s =
     (let currentColor = Vec4 redColorValue greenColorValue blueColorValue alphaValue
      in if m_pShaderManager s \<noteq> None
         then setVec4Value g_ColorValueName currentColor (setIntValue g_UseTextureName 0 s)
         else s)"

definition SetShaderTexture :: "string \<Rightarrow> scene \<Rightarrow> scene option" where
  "SetShaderTexture textureTag s =
     (if m_pShaderManager s \<noteq> None then
        do {
          let s = setIntValue g_UseTextureName 1 s;
          textureID \<leftarrow> FindTextureSlot textureTag s;
          Some (setSampler2DValue g_TextureValueName textureID s)
        }
      else Some s)"

definition SetTextureUVScale :: "real \<Rightarrow> real \<Rightarrow> scene \<Rightarrow> scene" where
  "SetTextureUVScale u v s =
     (if m_pShaderManager s \<noteq> None then setVec2Value ''UVscale'' (Vec2 u v) s else s)"

text \<open>The local \<^verbatim>\<open>OBJECT_MATERIAL material\<close> is not initialised by the source; it starts
  with the contents \<open>uninitialised s\<close>.\<close>

definition SetShaderMaterial :: "string \<Rightarrow> scene \<Rightarrow> scene option" where
  "SetShaderMaterial materialTag s =
     (if length (m_objectMaterials s) > 0 then
        (let (bReturn, material) = FindMaterial materialTag (uninitialised s) s
         in if bReturn = True then
              do {
                s \<leftarrow> arrow (setVec3Value ''material.diffuseColor'' (diffuseColor material)) s;
                s \<leftarrow> arrow (setVec3Value ''material.specularColor'' (specularColor material)) s;
                arrow (setFloatValue ''material.shininess'' (shininess material)) s
              }
            else Some s)
      else Some s)"


subsection \<open>The scene script\<close>

text \<open>LoadSceneTextures: five loads, whose results are assigned to \<^verbatim>\<open>bReturn\<close> and never
  read, then BindGLTextures.\<close>

definition LoadSceneTextures :: "decoder \<Rightarrow> scene \<Rightarrow> scene option" where
  "LoadSceneTextures stbi_load s =
     do {
       (bReturn, s) \<leftarrow> CreateGLTexture stbi_load ''textures/wood.jpg'' ''wood'' s;
       (bReturn, s) \<leftarrow> CreateGLTexture stbi_load ''textures/ground.jpg'' ''ground'' s;
       (bReturn, s) \<leftarrow> CreateGLTexture stbi_load ''textures/eraser.jpg'' ''eraser'' s;
       (bReturn, s) \<leftarrow> CreateGLTexture stbi_load ''textures/roof.jpg'' ''roof'' s;
       (bReturn, s) \<leftarrow> CreateGLTexture stbi_load ''textures/nightsky.jpg'' ''nightsky'' s;
       BindGLTextures s
     }"

definition goldMaterial :: OBJECT_MATERIAL where
  "goldMaterial =
     \<lparr>diffuseColor = Vec3 0.4 0.4 0.4, specularColor = Vec3 0.7 0.7 0.6, shininess = 52.0,
      material_tag = ''metal''\<rparr>"

definition woodMaterial :: OBJECT_MATERIAL where
  "woodMaterial =
     \<lparr>diffuseColor = Vec3 0.2 0.2 0.3, specularColor = Vec3 0.0 0.0 0.0, shininess = 0.1,
      material_tag = ''wood''\<rparr>"

definition glassMaterial :: OBJECT_MATERIAL where
  "glassMaterial =
     \<lparr>diffuseColor = Vec3 0.2 0.2 0.2, specularColor = Vec3 1.0 1.0 1.0, shininess = 95.0,
      material_tag = ''glass''\<rparr>"

definition push_back :: "OBJECT_MATERIAL \<Rightarrow> scene \<Rightarrow> scene" where
  "push_back m s = s\<lparr>m_objectMaterials := m_objectMaterials s @ [m]\<rparr>"

text \<open>DefineObjectMaterials fills in three local materials and calls
  \<^verbatim>\<open>m_objectMaterials.push_back\<close> for the first two; the function ends after the
  assignment of the tag of the third.\<close>

definition DefineObjectMaterials :: "scene \<Rightarrow> scene" where
  "DefineObjectMaterials s =
     (let s = push_back goldMaterial s;
          s = push_back woodMaterial s;
          local_glassMaterial = glassMaterial
      in s)"

definition SetupSceneLights :: "scene \<Rightarrow> scene option" where
  "SetupSceneLights s =
     do {
       s \<leftarrow> arrow (setBoolValue g_UseLightingName True) s;

       s \<leftarrow> arrow (setVec3Value ''directionalLight.direction'' (Vec3 (- 0.1) (- 1.0) (- 0.1))) s;
       s \<leftarrow> arrow (setVec3Value ''directionalLight.ambient'' (Vec3 0.8 0.8 0.8)) s;
       s \<leftarrow> arrow (setVec3Value ''directionalLight.diffuse'' (Vec3 1.5 1.5 1.5)) s;
       s \<leftarrow> arrow (setVec3Value ''directionalLight.specular'' (Vec3 1.5 1.5 1.5)) s;
       s \<leftarrow> arrow (setBoolValue ''directionalLight.bActive'' True) s;

       s \<leftarrow> arrow (setVec3Value ''directionalLight.direction'' (Vec3 (- 0.1) (- 1.0) (- 0.1))) s;
       s \<leftarrow> arrow (setVec3Value ''directionalLight.ambient'' (Vec3 1.08 1.08 1.08)) s;
       s \<leftarrow> arrow (setVec3Value ''directionalLight.diffuse'' (Vec3 2.25 2.25 2.25)) s;
       s \<leftarrow> arrow (setVec3Value ''directionalLight.specular'' (Vec3 1.98 1.98 1.98)) s;
       s \<leftarrow> arrow (setBoolValue ''directionalLight.bActive'' True) s;

       s \<leftarrow> arrow (setVec3Value ''pointLights[1].position'' (Vec3 5.0 5.0 3.0)) s;
       s \<leftarrow> arrow (setVec3Value ''pointLights[1].ambient'' (Vec3 0.08 0.0 0.12)) s;
       s \<leftarrow> arrow (setVec3Value ''pointLights[1].diffuse'' (Vec3 0.5 0.1 0.7)) s;
       s \<leftarrow> arrow (setVec3Value ''pointLights[1].specular'' (Vec3 0.7 0.3 0.9)) s;
       s \<leftarrow> arrow (setBoolValue ''pointLights[1].bActive'' True) s;

       s \<leftarrow> arrow (setVec3Value ''pointLights[2].position'' (Vec3 (- 6.0) 5.0 2.0)) s;
       s \<leftarrow> arrow (setVec3Value ''pointLights[2].ambient'' (Vec3 0.0 0.05 0.05)) s;
       s \<leftarrow> arrow (setVec3Value ''pointLights[2].diffuse'' (Vec3 0.2 0.8 0.5)) s;
       s \<leftarrow> arrow (setVec3Value ''pointLights[2].specular'' (Vec3 0.3 1.0 0.6)) s;
       arrow (setBoolValue ''pointLights[2].bActive'' True) s
     }"

definition PrepareScene :: "decoder \<Rightarrow> scene \<Rightarrow> scene option" where
  "PrepareScene stbi_load s =
     do {
       s \<leftarrow> LoadSceneTextures stbi_load s;
       let s = DefineObjectMaterials s;
       s \<leftarrow> SetupSceneLights s;
       let s = LoadPlaneMesh s;
       let s = LoadCylinderMesh s;
       let s = LoadConeMesh s;
       let s = LoadBoxMesh s;
       let s = LoadSphereMesh s;
       let s = LoadPyramid3Mesh s;
       let s = LoadTaperedCylinderMesh s;
       Some s
     }"

text \<open>RenderScene, statement by statement; the lines the source has commented out are
  left out.\<close>

definition RenderScene :: "scene \<Rightarrow> scene option" where
  "RenderScene s =
     do {
       let scaleXYZ = Vec3 35.0 1.0 15.0;
       let XrotationDegrees = 0.0;
       let YrotationDegrees = 0.0;
       let ZrotationDegrees = 0.0;
       let positionXYZ = Vec3 0.0 0.0 0.0;
       let s = SetTransformations scaleXYZ XrotationDegrees YrotationDegrees ZrotationDegrees
                 positionXYZ s;
       s \<leftarrow> SetShaderMaterial ''wood'' s;
       s \<leftarrow> SetShaderTexture ''ground'' s;
       let s = SetTextureUVScale 2.0 2.0 s;
       let s = DrawPlaneMesh s;

       let scaleXYZ = Vec3 0.3 3.0 0.3;
       let XrotationDegrees = 0.0;
       let YrotationDegrees = 0.0;
       let ZrotationDegrees = 90.0;
       let positionXYZ = Vec3 0.5 1.5 3.5;
       let s = SetTransformations scaleXYZ XrotationDegrees YrotationDegrees ZrotationDegrees
                 positionXYZ s;
       s \<leftarrow> SetShaderTexture ''wood'' s;
       let s = SetTextureUVScale 0.5 0.5 s;
       s \<leftarrow> SetShaderMaterial ''wood'' s;
       let s = DrawCylinderMesh s;

       let scaleXYZ = Vec3 35.0 15.0 20.0;
       let XrotationDegrees = - 90.0;
       let YrotationDegrees = 0.0;
       let ZrotationDegrees = 0.0;
       let positionXYZ = Vec3 0.0 19.0 (- 15.0);
       let s = SetTransformations scaleXYZ XrotationDegrees YrotationDegrees ZrotationDegrees
                 positionXYZ s;
       s \<leftarrow> SetShaderTexture ''nightsky'' s;
       let s = SetTextureUVScale 1 1 s;
       let s = DrawPlaneMesh s;

       let scaleXYZ = Vec3 0.3 0.5 0.3;
       let XrotationDegrees = 0.0;
       let YrotationDegrees = 0.0;
       let ZrotationDegrees = 90.0;
       let positionXYZ = Vec3 (- 2.5) 1.5 3.5;
       let s = SetTransformations scaleXYZ XrotationDegrees YrotationDegrees ZrotationDegrees
                 positionXYZ s;
       s \<leftarrow> SetShaderMaterial ''metal'' s;
       let s = SetTextureUVScale 1 1 s;
       let s = SetShaderColor 0.196 0.196 0.196 1.0 s;
       let s = DrawConeMesh s;

       let scaleXYZ = Vec3 0.3 0.5 0.3;
       let XrotationDegrees = 0.0;
       let YrotationDegrees = 0.0;
       let ZrotationDegrees = 90.0;
       let positionXYZ = Vec3 1.0 1.5 3.5;
       let s = SetTransformations scaleXYZ XrotationDegrees YrotationDegrees ZrotationDegrees
                 positionXYZ s;
       s \<leftarrow> SetShaderTexture ''eraser'' s;
       let s = SetTextureUVScale 0.5 0.5 s;
       let s = DrawCylinderMesh s;

       let scaleXYZ = Vec3 2.0 2.0 2.0;
       let positionXYZ = Vec3 (- 7.0) 1.0 0.0;
       let s = SetTransformations scaleXYZ 0.0 66.0 0.0 positionXYZ s;
       let s = SetShaderColor 0.18 0.45 0.28 1.0 s;
       let s = DrawBoxMesh s;

       let scaleXYZ = Vec3 1.0 2.0 1.0;
       let positionXYZ = Vec3 (- 7.0) 2.0 0.0;
       let s = SetTransformations scaleXYZ 0.0 0.0 0.0 positionXYZ s;
       s \<leftarrow> SetShaderTexture ''roof'' s;
       let s = SetTextureUVScale 0.5 0.5 s;
       let s = DrawConeMesh s;

       let scaleXYZ = Vec3 2.05 2.05 2.05;
       let positionXYZ = Vec3 4.0 2.2 0.0;
       let s = SetTransformations scaleXYZ 0.0 0.0 0.0 positionXYZ s;
       let s = SetShaderColor 0.35 0.55 0.85 1.0 s;
       let s = DrawSphereMesh s;

       let scaleXYZ = Vec3 4.0 7.0 4.0;
       let positionXYZ = Vec3 9.0 3.5 0.0;
       let s = SetTransformations scaleXYZ 0.0 25.0 0.0 positionXYZ s;
       let s = SetShaderColor 0.74 0.62 0.36 1.0 s;
       let s = DrawPyramid3Mesh s;

       let scaleXYZ = Vec3 1.8 3.7 1.8;
       let positionXYZ = Vec3 (- 3.0) 0.75 (- 2.25);
       let s = SetTransformations scaleXYZ 0.0 15.0 0.0 positionXYZ s;
       let s = SetShaderColor 0.65 0.18 0.22 1.0 s;
       let s = DrawTaperedCylinderMesh s;
       Some s
     }"

subsection \<open>Reading the graphics context\<close>

text \<open>A uniform holds the value of the last call that set it.\<close>

fun apply_call :: "gl_call \<Rightarrow> (string \<rightharpoonup> uniform) \<Rightarrow> (string \<rightharpoonup> uniform)" where
  "apply_call (Uniform name v) m = m(name \<mapsto> v)"
| "apply_call c m = m"

definition uniforms :: "gl_call list \<Rightarrow> (string \<rightharpoonup> uniform)" where
  "uniforms cs = fold apply_call cs Map.empty"

text \<open>The draw calls of a list of calls, in order, each with the uniforms it is issued
  under, starting from the uniforms \<open>m\<close>.\<close>

fun draw_calls :: "(string \<rightharpoonup> uniform) \<Rightarrow> gl_call list \<Rightarrow> (mesh_kind \<times> (string \<rightharpoonup> uniform)) list" where
  "draw_calls m [] = []"
| "draw_calls m (DrawMesh k # cs) = (k, m) # draw_calls m cs"
| "draw_calls m (c # cs) = draw_calls (apply_call c m) cs"

text \<open>The calls a step adds to the context, and the draw calls among them.\<close>

definition issued :: "scene \<Rightarrow> scene \<Rightarrow> gl_call list" where
  "issued s s' = drop (length (gl_calls s)) (gl_calls s')"

definition frame :: "scene \<Rightarrow> scene \<Rightarrow> (mesh_kind \<times> (string \<rightharpoonup> uniform)) list" where
  "frame s s' = draw_calls (uniforms (gl_calls s)) (issued s s')"


text \<open>The calls of one draw step each: a step ends with its draw call.\<close>

fun steps_from :: "gl_call list \<Rightarrow> gl_call list \<Rightarrow> gl_call list list" where
  "steps_from acc [] = []"
| "steps_from acc (DrawMesh k # cs) = (acc @ [DrawMesh k]) # steps_from [] cs"
| "steps_from acc (c # cs) = steps_from (acc @ [c]) cs"

definition steps :: "gl_call list \<Rightarrow> gl_call list list" where
  "steps cs = steps_from [] cs"

text \<open>The names of the uniforms a list of calls sets, in order.\<close>

definition uniform_names :: "gl_call list \<Rightarrow> string list" where
  "uniform_names cs = concat (map (\<lambda>c. case c of Uniform name v \<Rightarrow> [name] | _ \<Rightarrow> []) cs)"

text \<open>The values a list of calls writes to one uniform, in order.\<close>

definition writes_to :: "string \<Rightarrow> gl_call list \<Rightarrow> uniform list" where
  "writes_to name cs =
     concat (map (\<lambda>c. case c of Uniform n v \<Rightarrow> if n = name then [v] else [] | _ \<Rightarrow> []) cs)"

text \<open>A state with some more calls made on the context.\<close>

definition emit :: "gl_call list \<Rightarrow> scene \<Rightarrow> scene" where
  "emit cs s = s\<lparr>gl_calls := gl_calls s @ cs\<rparr>"

subsection \<open>The states the scene script runs in\<close>

text \<open>
  The Prepared state: what PrepareScene returns on a newly constructed scene manager, and
  what RenderScene returns in the Prepared state.
\<close>

inductive Prepared :: "scene \<Rightarrow> bool" where
  prepare: "PrepareScene stbi_load (SceneManager_ctor p g) = Some s \<Longrightarrow> Prepared s"
| render: "Prepared s \<Longrightarrow> RenderScene s = Some s' \<Longrightarrow> Prepared s'"

text \<open>What holds of every Prepared state: a shader manager, a texture count inside the
  table, and the two materials that DefineObjectMaterials has pushed.\<close>

definition ready :: "scene \<Rightarrow> bool" where
  "ready s = (m_pShaderManager s \<noteq> None \<and> 0 \<le> m_loadedTextures s \<and>
     m_loadedTextures s \<le> int (length (m_textureIDs s)) \<and>
     m_objectMaterials s = [goldMaterial, woodMaterial])"

definition same_members :: "scene \<Rightarrow> scene \<Rightarrow> bool" where
  "same_members s s' = (m_pShaderManager s' = m_pShaderManager s \<and>
     m_objectMaterials s' = m_objectMaterials s \<and> uninitialised s' = uninitialised s)"

subsection \<open>The model matrix as the specification words it\<close>

text \<open>
  The specification's \<open>T \<cdot> Rz \<cdot> Ry \<cdot> Rx \<cdot> S\<close>: the translation, the rotations about
  the three axes and the scaling as the usual homogeneous matrices, the angles given in
  degrees, and the product as the row-by-column product of linear algebra, written on
  the entries of the matrices. None of these definitions uses the model of glm.
\<close>

text \<open>The entry in row \<open>i\<close> and column \<open>j\<close> of a matrix, and the matrix with given entries.\<close>

fun spec_component :: "vec4 \<Rightarrow> nat \<Rightarrow> real" where
  "spec_component (Vec4 x y z w) i = (if i = 0 then x else if i = 1 then y else if i = 2 then z else w)"

fun spec_entry :: "mat4 \<Rightarrow> nat \<Rightarrow> nat \<Rightarrow> real" where
  "spec_entry (Mat4 c0 c1 c2 c3) i j =
     spec_component (if j = 0 then c0 else if j = 1 then c1 else if j = 2 then c2 else c3) i"

definition spec_matrix :: "(nat \<Rightarrow> nat \<Rightarrow> real) \<Rightarrow> mat4" where
  "spec_matrix e =
     Mat4 (Vec4 (e 0 0) (e 1 0) (e 2 0) (e 3 0)) (Vec4 (e 0 1) (e 1 1) (e 2 1) (e 3 1))
          (Vec4 (e 0 2) (e 1 2) (e 2 2) (e 3 2)) (Vec4 (e 0 3) (e 1 3) (e 2 3) (e 3 3))"

text \<open>The product: entry \<open>(i, j)\<close> is the sum over \<open>k\<close> of \<open>a(i, k) * b(k, j)\<close>.\<close>

definition spec_times :: "mat4 \<Rightarrow> mat4 \<Rightarrow> mat4" where
  "spec_times a b =
     spec_matrix (\<lambda>i j. sum_list (map (\<lambda>k. spec_entry a i k * spec_entry b k j) [0, 1, 2, 3]))"

definition spec_S :: "vec3 \<Rightarrow> mat4" where
  "spec_S v = (case v of Vec3 x y z \<Rightarrow>
     Mat4 (Vec4 x 0 0 0) (Vec4 0 y 0 0) (Vec4 0 0 z 0) (Vec4 0 0 0 1))"

definition spec_T :: "vec3 \<Rightarrow> mat4" where
  "spec_T v = (case v of Vec3 x y z \<Rightarrow>
     Mat4 (Vec4 1 0 0 0) (Vec4 0 1 0 0) (Vec4 0 0 1 0) (Vec4 x y z 1))"

definition spec_Rx :: "real \<Rightarrow> mat4" where
  "spec_Rx a =
     Mat4 (Vec4 1 0 0 0) (Vec4 0 (cos a) (sin a) 0) (Vec4 0 (- sin a) (cos a) 0) (Vec4 0 0 0 1)"

definition spec_Ry :: "real \<Rightarrow> mat4" where
  "spec_Ry a =
     Mat4 (Vec4 (cos a) 0 (- sin a) 0) (Vec4 0 1 0 0) (Vec4 (sin a) 0 (cos a) 0) (Vec4 0 0 0 1)"

definition spec_Rz :: "real \<Rightarrow> mat4" where
  "spec_Rz a =
     Mat4 (Vec4 (cos a) (sin a) 0 0) (Vec4 (- sin a) (cos a) 0 0) (Vec4 0 0 1 0) (Vec4 0 0 0 1)"

definition spec_radians :: "real \<Rightarrow> real" where
  "spec_radians d = d * pi / 180"

definition spec_model :: "vec3 \<Rightarrow> real \<Rightarrow> real \<Rightarrow> real \<Rightarrow> vec3 \<Rightarrow> mat4" where
  "spec_model scaleXYZ rx ry rz positionXYZ =
     spec_times (spec_T positionXYZ)
       (spec_times (spec_Rz (spec_radians rz))
         (spec_times (spec_Ry (spec_radians ry))
           (spec_times (spec_Rx (spec_radians rx)) (spec_S scaleXYZ))))"

subsection \<open>The calls of one RenderScene\<close>

text \<open>The calls RenderScene makes in a Prepared state, given the slot that FindTextureSlot
  returns for each tag.\<close>

definition RenderScene_calls :: "(string \<Rightarrow> int) \<Rightarrow> gl_call list" where
  "RenderScene_calls slot =
    [Uniform ''model'' (UMat4 (spec_model (Vec3 35 1 15) 0 0 0 (Vec3 0 0 0))),
     Uniform ''material.diffuseColor'' (UVec3 (Vec3 0.2 0.2 0.3)),
     Uniform ''material.specularColor'' (UVec3 (Vec3 0 0 0)),
     Uniform ''material.shininess'' (UFloat 0.1),
     Uniform ''bUseTexture'' (UInt 1),
     Uniform ''objectTexture'' (USampler2D (slot ''ground'')),
     Uniform ''UVscale'' (UVec2 (Vec2 2 2)),
     DrawMesh Plane,

     Uniform ''model'' (UMat4 (spec_model (Vec3 0.3 3 0.3) 0 0 90 (Vec3 0.5 1.5 3.5))),
     Uniform ''bUseTexture'' (UInt 1),
     Uniform ''objectTexture'' (USampler2D (slot ''wood'')),
     Uniform ''UVscale'' (UVec2 (Vec2 0.5 0.5)),
     Uniform ''material.diffuseColor'' (UVec3 (Vec3 0.2 0.2 0.3)),
     Uniform ''material.specularColor'' (UVec3 (Vec3 0 0 0)),
     Uniform ''material.shininess'' (UFloat 0.1),
     DrawMesh Cylinder,

     Uniform ''model'' (UMat4 (spec_model (Vec3 35 15 20) (- 90) 0 0 (Vec3 0 19 (- 15)))),
     Uniform ''bUseTexture'' (UInt 1),
     Uniform ''objectTexture'' (USampler2D (slot ''nightsky'')),
     Uniform ''UVscale'' (UVec2 (Vec2 1 1)),
     DrawMesh Plane,

     Uniform ''model'' (UMat4 (spec_model (Vec3 0.3 0.5 0.3) 0 0 90 (Vec3 (- 2.5) 1.5 3.5))),
     Uniform ''material.diffuseColor'' (UVec3 (Vec3 0.4 0.4 0.4)),
     Uniform ''material.specularColor'' (UVec3 (Vec3 0.7 0.7 0.6)),
     Uniform ''material.shininess'' (UFloat 52),
     Uniform ''UVscale'' (UVec2 (Vec2 1 1)),
     Uniform ''bUseTexture'' (UInt 0),
     Uniform ''objectColor'' (UVec4 (Vec4 0.196 0.196 0.196 1)),
     DrawMesh Cone,

     Uniform ''model'' (UMat4 (spec_model (Vec3 0.3 0.5 0.3) 0 0 90 (Vec3 1 1.5 3.5))),
     Uniform ''bUseTexture'' (UInt 1),
     Uniform ''objectTexture'' (USampler2D (slot ''eraser'')),
     Uniform ''UVscale'' (UVec2 (Vec2 0.5 0.5)),
     DrawMesh Cylinder,

     Uniform ''model'' (UMat4 (spec_model (Vec3 2 2 2) 0 66 0 (Vec3 (- 7) 1 0))),
     Uniform ''bUseTexture'' (UInt 0),
     Uniform ''objectColor'' (UVec4 (Vec4 0.18 0.45 0.28 1)),
     DrawMesh Box,

     Uniform ''model'' (UMat4 (spec_model (Vec3 1 2 1) 0 0 0 (Vec3 (- 7) 2 0))),
     Uniform ''bUseTexture'' (UInt 1),
     Uniform ''objectTexture'' (USampler2D (slot ''roof'')),
     Uniform ''UVscale'' (UVec2 (Vec2 0.5 0.5)),
     DrawMesh Cone,

     Uniform ''model'' (UMat4 (spec_model (Vec3 2.05 2.05 2.05) 0 0 0 (Vec3 4 2.2 0))),
     Uniform ''bUseTexture'' (UInt 0),
     Uniform ''objectColor'' (UVec4 (Vec4 0.35 0.55 0.85 1)),
     DrawMesh Sphere,

     Uniform ''model'' (UMat4 (spec_model (Vec3 4 7 4) 0 25 0 (Vec3 9 3.5 0))),
     Uniform ''bUseTexture'' (UInt 0),
     Uniform ''objectColor'' (UVec4 (Vec4 0.74 0.62 0.36 1)),
     DrawMesh Pyramid3,

     Uniform ''model'' (UMat4 (spec_model (Vec3 1.8 3.7 1.8) 0 15 0 (Vec3 (- 3) 0.75 (- 2.25)))),
     Uniform ''bUseTexture'' (UInt 0),
     Uniform ''objectColor'' (UVec4 (Vec4 0.65 0.18 0.22 1)),
     DrawMesh TaperedCylinder]"

subsection \<open>Concrete inputs\<close>

text \<open>A material with zeroed contents, an image decoder that reads every file as a 256 by
  256 RGB image, one that reads every file as a one-channel image, a newly constructed
  scene manager with a shader manager, and its Prepared state.\<close>

definition blank_material :: OBJECT_MATERIAL where
  "blank_material =
     \<lparr>diffuseColor = Vec3 0 0 0, specularColor = Vec3 0 0 0, shininess = 0, material_tag = []\<rparr>"

definition rgb_files :: decoder where
  "rgb_files filename = Some \<lparr>width = 256, height = 256, colorChannels = 3\<rparr>"

definition grey_files :: decoder where
  "grey_files filename = Some \<lparr>width = 256, height = 256, colorChannels = 1\<rparr>"

definition new_scene :: scene where
  "new_scene = SceneManager_ctor (Some 1) blank_material"

definition example_prepared :: scene where
  "example_prepared = the (PrepareScene rgb_files new_scene)"

text \<open>The entry the constructor fills the texture table with, and the table after the
  five textures of the scene have been loaded into a new scene manager.\<close>

definition unused_entry :: TEXTURE_INFO where
  "unused_entry = \<lparr>tag = ''/0'', ID = - 1\<rparr>"

definition scene_table :: "TEXTURE_INFO list" where
  "scene_table =
     [\<lparr>tag = ''wood'', ID = 1\<rparr>, \<lparr>tag = ''ground'', ID = 2\<rparr>, \<lparr>tag = ''eraser'', ID = 3\<rparr>,
      \<lparr>tag = ''roof'', ID = 4\<rparr>, \<lparr>tag = ''nightsky'', ID = 5\<rparr>] @ replicate 11 unused_entry"

section \<open>Properties\<close>

subsection \<open>Calls on the context\<close>

lemma gl_fields [simp]:
  "m_pShaderManager (gl c s) = m_pShaderManager s"
  "m_textureIDs (gl c s) = m_textureIDs s"
  "m_loadedTextures (gl c s) = m_loadedTextures s"
  "m_objectMaterials (gl c s) = m_objectMaterials s"
  "uninitialised (gl c s) = uninitialised s"
  "gl_generated (gl c s) = gl_generated s"
  "gl_calls (gl c s) = gl_calls s @ [c]"
  by (simp_all add: gl_def)

lemma glGenTextures_fields [simp]:
  "m_pShaderManager (snd (glGenTextures s)) = m_pShaderManager s"
  "m_textureIDs (snd (glGenTextures s)) = m_textureIDs s"
  "m_loadedTextures (snd (glGenTextures s)) = m_loadedTextures s"
  "m_objectMaterials (snd (glGenTextures s)) = m_objectMaterials s"
  "uninitialised (snd (glGenTextures s)) = uninitialised s"
  "gl_generated (snd (glGenTextures s)) = Suc (gl_generated s)"
  "gl_calls (snd (glGenTextures s)) = gl_calls s @ [GenTextures (fst (glGenTextures s))]"
  "fst (glGenTextures s) = word_of_nat (Suc (gl_generated s))"
  by (simp_all add: glGenTextures_def Let_def)

lemma emit_fields [simp]:
  "m_pShaderManager (emit cs s) = m_pShaderManager s"
  "m_textureIDs (emit cs s) = m_textureIDs s"
  "m_loadedTextures (emit cs s) = m_loadedTextures s"
  "m_objectMaterials (emit cs s) = m_objectMaterials s"
  "uninitialised (emit cs s) = uninitialised s"
  "gl_generated (emit cs s) = gl_generated s"
  "gl_calls (emit cs s) = gl_calls s @ cs"
  by (simp_all add: emit_def)

lemma gl_emit: "gl c s = emit [c] s"
  by (simp add: gl_def emit_def)

lemma emit_emit [simp]: "emit cs (emit ds s) = emit (ds @ cs) s"
  by (simp add: emit_def)

lemma arrow_Some: "m_pShaderManager s = Some p \<Longrightarrow> arrow f s = Some (f s)"
  by (simp add: arrow_def)

lemmas set_defs = setMat4Value_def setIntValue_def setBoolValue_def setFloatValue_def
  setVec2Value_def setVec3Value_def setVec4Value_def setSampler2DValue_def

subsection \<open>The transform\<close>

lemma glm_scale_spec: "glm_scale v = spec_S v"
  by (cases v) (simp add: glm_scale_def spec_S_def mat4_identity_def)

lemma glm_translate_spec: "glm_translate v = spec_T v"
  by (cases v) (simp add: glm_translate_def spec_T_def mat4_identity_def)

lemma glm_rotate_x: "glm_rotate a (Vec3 1 0 0) = spec_Rx a"
  by (simp add: glm_rotate_def spec_Rx_def mat4_identity_def Let_def)

lemma glm_rotate_y: "glm_rotate a (Vec3 0 1 0) = spec_Ry a"
  by (simp add: glm_rotate_def spec_Ry_def mat4_identity_def Let_def)

lemma glm_rotate_z: "glm_rotate a (Vec3 0 0 1) = spec_Rz a"
  by (simp add: glm_rotate_def spec_Rz_def mat4_identity_def Let_def)

lemma glm_radians_spec: "glm_radians d = spec_radians d"
  by (simp add: glm_radians_def spec_radians_def)

lemma vec4_add_assoc: "vec4_add (vec4_add a b) c = vec4_add a (vec4_add b c)"
  by (cases a; cases b; cases c) simp

lemma vec4_scale_add: "vec4_scale (vec4_add a b) k = vec4_add (vec4_scale a k) (vec4_scale b k)"
  by (cases a; cases b) (simp add: algebra_simps)

lemma vec4_scale_scale: "vec4_scale (vec4_scale a k) l = vec4_scale a (k * l)"
  by (cases a) (simp add: algebra_simps)

lemma mat4_column_column:
  "mat4_column a (mat4_column b v) = mat4_column (mat4_times a b) v"
  apply (cases a; cases b; cases v)
  subgoal for a0 a1 a2 a3 b0 b1 b2 b3 x y z w
    by (cases a0; cases a1; cases a2; cases a3; cases b0; cases b1; cases b2; cases b3)
       (simp add: algebra_simps)
  done

lemma mat4_times_assoc: "mat4_times (mat4_times a b) c = mat4_times a (mat4_times b c)"
  by (cases c) (simp add: mat4_column_column)

lemma mat4_times_spec: "mat4_times a b = spec_times a b"
  apply (cases a; cases b)
  subgoal for a0 a1 a2 a3 b0 b1 b2 b3
    by (cases a0; cases a1; cases a2; cases a3; cases b0; cases b1; cases b2; cases b3)
       (simp add: spec_times_def spec_matrix_def)
  done

lemmas spec_product_defs = spec_times_def spec_matrix_def

lemma spec_model_left:
  "spec_model sc rx ry rz pos =
     mat4_times (mat4_times (mat4_times (mat4_times (spec_T pos) (spec_Rz (spec_radians rz)))
       (spec_Ry (spec_radians ry))) (spec_Rx (spec_radians rx))) (spec_S sc)"
  by (simp add: spec_model_def mat4_times_spec[symmetric] mat4_times_assoc)

lemma spec_model_identity: "spec_model (Vec3 1 1 1) 0 0 0 (Vec3 0 0 0) = mat4_identity"
  by (simp add: spec_model_def spec_T_def spec_S_def spec_Rx_def spec_Ry_def spec_Rz_def
      spec_product_defs
      spec_radians_def mat4_identity_def)

lemma spec_radians_90: "spec_radians 90 = pi / 2"
  by (simp add: spec_radians_def)

lemma spec_model_pencil:
  "spec_model (Vec3 0.3 3 0.3) 0 0 90 (Vec3 0.5 1.5 3.5) =
     Mat4 (Vec4 0 0.3 0 0) (Vec4 (- 3) 0 0 0) (Vec4 0 0 0.3 0) (Vec4 0.5 1.5 3.5 1)"
  by (simp add: spec_model_def spec_T_def spec_S_def spec_Rx_def spec_Ry_def spec_Rz_def
      spec_radians_90 spec_product_defs) (simp add: spec_radians_def)

lemma SetTransformations_spec:
  "m_pShaderManager s = Some p \<Longrightarrow>
   SetTransformations sc rx ry rz pos s =
     gl (Uniform ''model'' (UMat4 (spec_model sc rx ry rz pos))) s"
  by (simp add: SetTransformations_def Let_def glm_scale_spec glm_translate_spec glm_rotate_x
      glm_rotate_y glm_rotate_z glm_radians_spec spec_model_left setMat4Value_def g_ModelName_def)

subsection \<open>Lookups\<close>

lemma no_match_while:
  "\<forall>m\<in>set (m_objectMaterials s). material_tag m \<noteq> tg \<Longrightarrow> 0 \<le> index \<Longrightarrow>
   FindMaterial_while tg s index bFound material = material"
proof (induction tg s index bFound material rule: FindMaterial_while.induct)
  case (1 tg s index bFound material)
  show ?case
  proof (cases "index < int (length (m_objectMaterials s)) \<and> bFound = False")
    case True
    with "1.prems" have "nat index < length (m_objectMaterials s)" by auto
    then have "m_objectMaterials s ! nat index \<in> set (m_objectMaterials s)" by simp
    with "1.prems" have ne: "material_tag (m_objectMaterials s ! nat index) \<noteq> tg" by blast
    from "1.prems" have "0 \<le> index + 1" by simp
    from "1.IH"(2)[OF True ne "1.prems"(1) this] True ne show ?thesis
      by (subst FindMaterial_while.simps) simp
  next
    case False
    then show ?thesis by (subst FindMaterial_while.simps) auto
  qed
qed

lemma texture_at_cong:
  "m_textureIDs s' = m_textureIDs s \<Longrightarrow> texture_at s' i = texture_at s i"
  by (simp add: texture_at_def)

lemma texture_at_Some:
  "0 \<le> i \<Longrightarrow> i < m_loadedTextures s \<Longrightarrow> m_loadedTextures s \<le> int (length (m_textureIDs s)) \<Longrightarrow>
   texture_at s i = Some (m_textureIDs s ! nat i)"
  unfolding texture_at_def by (simp add: nat_less_iff)

lemma FindTextureSlot_while_cong:
  "m_textureIDs s' = m_textureIDs s \<Longrightarrow> m_loadedTextures s' = m_loadedTextures s \<Longrightarrow>
   FindTextureSlot_while tg s' r i b = FindTextureSlot_while tg s r i b"
proof (induction tg s r i b rule: FindTextureSlot_while.induct)
  case (1 tg s textureSlot index bFound)
  have at: "texture_at s' index = texture_at s index"
    using "1.prems" by (simp add: texture_at_def)
  show ?case
  proof (cases "index < m_loadedTextures s \<and> bFound = False")
    case go: True
    show ?thesis
    proof (cases "texture_at s index")
      case None
      with go at "1.prems" show ?thesis
        by (subst FindTextureSlot_while.simps[of tg s' textureSlot index bFound],
            subst FindTextureSlot_while.simps[of tg s textureSlot index bFound]) simp
    next
      case (Some t)
      show ?thesis
      proof (cases "tag t = tg")
        case True
        from "1.IH"(1)[OF go Some True "1.prems"] go at Some True "1.prems" show ?thesis
          by (subst FindTextureSlot_while.simps[of tg s' textureSlot index bFound],
            subst FindTextureSlot_while.simps[of tg s textureSlot index bFound]) simp
      next
        case False
        from "1.IH"(2)[OF go Some False "1.prems"] go at Some False "1.prems" show ?thesis
          by (subst FindTextureSlot_while.simps[of tg s' textureSlot index bFound],
            subst FindTextureSlot_while.simps[of tg s textureSlot index bFound]) simp
      qed
    qed
  next
    case False
    with "1.prems" show ?thesis
      by (subst FindTextureSlot_while.simps[of tg s' textureSlot index bFound],
            subst FindTextureSlot_while.simps[of tg s textureSlot index bFound]) auto
  qed
qed

lemma FindTextureSlot_emit [simp]: "FindTextureSlot tg (emit cs s) = FindTextureSlot tg s"
  by (simp add: FindTextureSlot_def FindTextureSlot_while_cong[of "emit cs s" s])

lemma FindTextureSlot_while_total:
  "0 \<le> i \<Longrightarrow> m_loadedTextures s \<le> int (length (m_textureIDs s)) \<Longrightarrow>
   \<exists>r'. FindTextureSlot_while tg s r i b = Some r'"
proof (induction tg s r i b rule: FindTextureSlot_while.induct)
  case (1 tg s textureSlot index bFound)
  show ?case
  proof (cases "index < m_loadedTextures s \<and> bFound = False")
    case go: True
    with "1.prems" have t: "texture_at s index = Some (m_textureIDs s ! nat index)"
      by (simp add: texture_at_Some)
    show ?thesis
    proof (cases "tag (m_textureIDs s ! nat index) = tg")
      case True
      from "1.IH"(1)[OF go t True "1.prems"] go t True show ?thesis
        by (subst FindTextureSlot_while.simps[of tg s textureSlot index bFound]) simp
    next
      case False
      from "1.prems" have "0 \<le> index + 1" by simp
      from "1.IH"(2)[OF go t False this "1.prems"(2)] go t False show ?thesis
        by (subst FindTextureSlot_while.simps[of tg s textureSlot index bFound]) simp
    qed
  next
    case False
    then show ?thesis
      by (subst FindTextureSlot_while.simps[of tg s textureSlot index bFound]) auto
  qed
qed

lemma FindTextureSlot_total:
  "m_loadedTextures s \<le> int (length (m_textureIDs s)) \<Longrightarrow> \<exists>r. FindTextureSlot tg s = Some r"
  using FindTextureSlot_while_total[of 0 s tg "- 1" False]
  by (simp add: FindTextureSlot_def)

subsection \<open>The facade in a Prepared state\<close>

lemma ready_emit [simp]: "ready (emit cs s) = ready s"
  by (simp add: ready_def)

lemma SetTransformations_emit:
  "ready s \<Longrightarrow> SetTransformations sc rx ry rz pos s =
     emit [Uniform ''model'' (UMat4 (spec_model sc rx ry rz pos))] s"
  by (auto simp: ready_def SetTransformations_spec gl_emit)

lemma SetShaderColor_emit:
  "ready s \<Longrightarrow> SetShaderColor r g b a s =
     emit [Uniform ''bUseTexture'' (UInt 0), Uniform ''objectColor'' (UVec4 (Vec4 r g b a))] s"
  by (simp add: ready_def SetShaderColor_def set_defs gl_emit g_UseTextureName_def
      g_ColorValueName_def)

lemma SetTextureUVScale_emit:
  "ready s \<Longrightarrow> SetTextureUVScale u v s = emit [Uniform ''UVscale'' (UVec2 (Vec2 u v))] s"
  by (simp add: ready_def SetTextureUVScale_def set_defs gl_emit)

lemma SetShaderTexture_emit:
  "ready s \<Longrightarrow> SetShaderTexture tg s =
     Some (emit [Uniform ''bUseTexture'' (UInt 1),
                 Uniform ''objectTexture'' (USampler2D (the (FindTextureSlot tg s)))] s)"
proof -
  assume r: "ready s"
  then obtain i where "FindTextureSlot tg s = Some i"
    using FindTextureSlot_total[of s tg] by (auto simp: ready_def)
  with r show ?thesis
    by (auto simp: ready_def SetShaderTexture_def set_defs gl_emit g_UseTextureName_def
        g_TextureValueName_def)
qed

lemma DrawMesh_emit: "DrawMesh_call k s = emit [DrawMesh k] s"
  by (simp add: DrawMesh_call_def gl_emit)

lemma FindMaterial_wood:
  "m_objectMaterials s = [goldMaterial, woodMaterial] \<Longrightarrow>
   FindMaterial ''wood'' u s = (True, u\<lparr>diffuseColor := Vec3 0.2 0.2 0.3,
     specularColor := Vec3 0 0 0, shininess := 0.1\<rparr>)"
  by (simp add: FindMaterial_def FindMaterial_while.simps goldMaterial_def woodMaterial_def)

lemma FindMaterial_metal:
  "m_objectMaterials s = [goldMaterial, woodMaterial] \<Longrightarrow>
   FindMaterial ''metal'' u s = (True, u\<lparr>diffuseColor := Vec3 0.4 0.4 0.4,
     specularColor := Vec3 0.7 0.7 0.6, shininess := 52\<rparr>)"
  by (simp add: FindMaterial_def FindMaterial_while.simps goldMaterial_def woodMaterial_def)

lemma SetShaderMaterial_wood:
  "ready s \<Longrightarrow> SetShaderMaterial ''wood'' s =
     Some (emit [Uniform ''material.diffuseColor'' (UVec3 (Vec3 0.2 0.2 0.3)),
                 Uniform ''material.specularColor'' (UVec3 (Vec3 0 0 0)),
                 Uniform ''material.shininess'' (UFloat 0.1)] s)"
  by (auto simp: ready_def SetShaderMaterial_def FindMaterial_wood arrow_Some set_defs gl_emit)

lemma SetShaderMaterial_metal:
  "ready s \<Longrightarrow> SetShaderMaterial ''metal'' s =
     Some (emit [Uniform ''material.diffuseColor'' (UVec3 (Vec3 0.4 0.4 0.4)),
                 Uniform ''material.specularColor'' (UVec3 (Vec3 0.7 0.7 0.6)),
                 Uniform ''material.shininess'' (UFloat 52)] s)"
  by (auto simp: ready_def SetShaderMaterial_def FindMaterial_metal arrow_Some set_defs gl_emit)

subsection \<open>RenderScene\<close>

lemma RenderScene_emit:
  "ready s \<Longrightarrow>
   RenderScene s = Some (emit (RenderScene_calls (\<lambda>tg. the (FindTextureSlot tg s))) s)"
  by (simp add: RenderScene_def RenderScene_calls_def Let_def SetTransformations_emit
      SetShaderColor_emit SetTextureUVScale_emit SetShaderTexture_emit DrawMesh_emit
      SetShaderMaterial_wood SetShaderMaterial_metal)

lemma issued_emit [simp]: "issued s (emit cs s) = cs"
  by (simp add: issued_def)

lemma map_fst_draw_calls:
  "map fst (draw_calls m cs) = concat (map (\<lambda>c. case c of DrawMesh k \<Rightarrow> [k] | _ \<Rightarrow> []) cs)"
proof (induction cs arbitrary: m)
  case Nil
  show ?case by simp
next
  case (Cons c cs)
  then show ?case by (cases c) simp_all
qed

lemma RenderScene_kinds:
  "map fst (draw_calls m (RenderScene_calls slot)) =
     [Plane, Cylinder, Plane, Cone, Cylinder, Box, Cone, Sphere, Pyramid3, TaperedCylinder]"
  by (simp add: map_fst_draw_calls RenderScene_calls_def)


subsection \<open>PrepareScene\<close>

lemma SetupSceneLights_emit:
  assumes "m_pShaderManager s = Some p"
  shows "SetupSceneLights s = Some (emit
    [Uniform ''bUseLighting'' (UBool True),
     Uniform ''directionalLight.direction'' (UVec3 (Vec3 (- 0.1) (- 1.0) (- 0.1))),
     Uniform ''directionalLight.ambient'' (UVec3 (Vec3 0.8 0.8 0.8)),
     Uniform ''directionalLight.diffuse'' (UVec3 (Vec3 1.5 1.5 1.5)),
     Uniform ''directionalLight.specular'' (UVec3 (Vec3 1.5 1.5 1.5)),
     Uniform ''directionalLight.bActive'' (UBool True),
     Uniform ''directionalLight.direction'' (UVec3 (Vec3 (- 0.1) (- 1.0) (- 0.1))),
     Uniform ''directionalLight.ambient'' (UVec3 (Vec3 1.08 1.08 1.08)),
     Uniform ''directionalLight.diffuse'' (UVec3 (Vec3 2.25 2.25 2.25)),
     Uniform ''directionalLight.specular'' (UVec3 (Vec3 1.98 1.98 1.98)),
     Uniform ''directionalLight.bActive'' (UBool True),
     Uniform ''pointLights[1].position'' (UVec3 (Vec3 5.0 5.0 3.0)),
     Uniform ''pointLights[1].ambient'' (UVec3 (Vec3 0.08 0.0 0.12)),
     Uniform ''pointLights[1].diffuse'' (UVec3 (Vec3 0.5 0.1 0.7)),
     Uniform ''pointLights[1].specular'' (UVec3 (Vec3 0.7 0.3 0.9)),
     Uniform ''pointLights[1].bActive'' (UBool True),
     Uniform ''pointLights[2].position'' (UVec3 (Vec3 (- 6.0) 5.0 2.0)),
     Uniform ''pointLights[2].ambient'' (UVec3 (Vec3 0.0 0.05 0.05)),
     Uniform ''pointLights[2].diffuse'' (UVec3 (Vec3 0.2 0.8 0.5)),
     Uniform ''pointLights[2].specular'' (UVec3 (Vec3 0.3 1.0 0.6)),
     Uniform ''pointLights[2].bActive'' (UBool True)] s)"
  using assms
  by (simp add: SetupSceneLights_def arrow_Some set_defs gl_emit g_UseLightingName_def)

lemma CreateGLTexture_result:
  assumes "0 \<le> m_loadedTextures s" "m_loadedTextures s < int (length (m_textureIDs s))"
  shows "\<exists>b s'. CreateGLTexture stbi f tg s = Some (b, s') \<and> same_members s s' \<and>
     length (m_textureIDs s') = length (m_textureIDs s) \<and>
     m_loadedTextures s \<le> m_loadedTextures s' \<and> m_loadedTextures s' \<le> m_loadedTextures s + 1"
proof -
  from assms have "nat (m_loadedTextures s) < length (m_textureIDs s)" by (simp add: nat_less_iff)
  with assms show ?thesis
    by (auto simp: CreateGLTexture_def Let_def split_beta same_members_def split: option.splits)
qed

lemma CreateGLTexture_ok:
  assumes "stbi f = Some img" "colorChannels img = 3 \<or> colorChannels img = 4"
    "0 \<le> m_loadedTextures s" "m_loadedTextures s < int (length (m_textureIDs s))"
  shows "\<exists>s'. CreateGLTexture stbi f tg s = Some (True, s') \<and> same_members s s' \<and>
     m_loadedTextures s' = m_loadedTextures s + 1 \<and>
     m_textureIDs s' = (m_textureIDs s)
        [nat (m_loadedTextures s) := \<lparr>tag = tg, ID = word_of_nat (Suc (gl_generated s))\<rparr>] \<and>
     gl_generated s' = Suc (gl_generated s)"
proof -
  from assms have "nat (m_loadedTextures s) < length (m_textureIDs s)" by (simp add: nat_less_iff)
  with assms show ?thesis
    by (auto simp: CreateGLTexture_def Let_def split_beta same_members_def)
qed

lemma BindGLTextures_for_result:
  "0 \<le> i \<Longrightarrow> m_loadedTextures s \<le> int (length (m_textureIDs s)) \<Longrightarrow>
   \<exists>s'. BindGLTextures_for i s = Some s' \<and> same_members s s' \<and>
     m_textureIDs s' = m_textureIDs s \<and> m_loadedTextures s' = m_loadedTextures s \<and>
     gl_generated s' = gl_generated s"
proof (induction i s rule: BindGLTextures_for.induct)
  case (1 i s)
  show ?case
  proof (cases "i < m_loadedTextures s")
    case True
    with "1.prems" have t: "texture_at s i = Some (m_textureIDs s ! nat i)"
      by (simp add: texture_at_Some)
    from "1.prems" have "0 \<le> i + 1" by simp
    from "1.IH"[OF True t this] "1.prems"(2) True t show ?thesis
      by (subst BindGLTextures_for.simps) (simp add: same_members_def)
  next
    case False
    then show ?thesis
      by (subst BindGLTextures_for.simps) (simp add: same_members_def)
  qed
qed

lemma same_members_trans: "same_members a b \<Longrightarrow> same_members b c \<Longrightarrow> same_members a c"
  by (simp add: same_members_def)

lemma LoadSceneTextures_result:
  assumes "m_loadedTextures s = 0" "length (m_textureIDs s) = 16"
  shows "\<exists>s'. LoadSceneTextures stbi s = Some s' \<and> same_members s s' \<and>
     0 \<le> m_loadedTextures s' \<and> m_loadedTextures s' \<le> int (length (m_textureIDs s'))"
proof -
  obtain b1 s1 where 1: "CreateGLTexture stbi ''textures/wood.jpg'' ''wood'' s = Some (b1, s1)"
      "same_members s s1" "length (m_textureIDs s1) = 16"
      "0 \<le> m_loadedTextures s1" "m_loadedTextures s1 \<le> 1"
    using CreateGLTexture_result[of s stbi "''textures/wood.jpg''" "''wood''"] assms by auto
  obtain b2 s2 where 2: "CreateGLTexture stbi ''textures/ground.jpg'' ''ground'' s1 = Some (b2, s2)"
      "same_members s1 s2" "length (m_textureIDs s2) = 16"
      "0 \<le> m_loadedTextures s2" "m_loadedTextures s2 \<le> 2"
    using CreateGLTexture_result[of s1 stbi "''textures/ground.jpg''" "''ground''"] 1 by auto
  obtain b3 s3 where 3: "CreateGLTexture stbi ''textures/eraser.jpg'' ''eraser'' s2 = Some (b3, s3)"
      "same_members s2 s3" "length (m_textureIDs s3) = 16"
      "0 \<le> m_loadedTextures s3" "m_loadedTextures s3 \<le> 3"
    using CreateGLTexture_result[of s2 stbi "''textures/eraser.jpg''" "''eraser''"] 2 by auto
  obtain b4 s4 where 4: "CreateGLTexture stbi ''textures/roof.jpg'' ''roof'' s3 = Some (b4, s4)"
      "same_members s3 s4" "length (m_textureIDs s4) = 16"
      "0 \<le> m_loadedTextures s4" "m_loadedTextures s4 \<le> 4"
    using CreateGLTexture_result[of s3 stbi "''textures/roof.jpg''" "''roof''"] 3 by auto
  obtain b5 s5 where 5: "CreateGLTexture stbi ''textures/nightsky.jpg'' ''nightsky'' s4 = Some (b5, s5)"
      "same_members s4 s5" "length (m_textureIDs s5) = 16"
      "0 \<le> m_loadedTextures s5" "m_loadedTextures s5 \<le> 5"
    using CreateGLTexture_result[of s4 stbi "''textures/nightsky.jpg''" "''nightsky''"] 4 by auto
  obtain s6 where 6: "BindGLTextures_for 0 s5 = Some s6" "same_members s5 s6"
      "m_textureIDs s6 = m_textureIDs s5" "m_loadedTextures s6 = m_loadedTextures s5"
    using BindGLTextures_for_result[of 0 s5] 5 by auto
  have "LoadSceneTextures stbi s = Some s6"
    using 1(1) 2(1) 3(1) 4(1) 5(1) 6(1) by (simp add: LoadSceneTextures_def BindGLTextures_def)
  moreover have "same_members s s6"
    using 1(2) 2(2) 3(2) 4(2) 5(2) 6(2) by (simp add: same_members_def)
  ultimately show ?thesis using 5 6 by simp
qed

lemma ctor_fields [simp]:
  "m_pShaderManager (SceneManager_ctor p g) = p"
  "m_loadedTextures (SceneManager_ctor p g) = 0"
  "length (m_textureIDs (SceneManager_ctor p g)) = 16"
  "m_objectMaterials (SceneManager_ctor p g) = []"
  "uninitialised (SceneManager_ctor p g) = g"
  "gl_generated (SceneManager_ctor p g) = 0"
  "gl_calls (SceneManager_ctor p g) = []"
  by (simp_all add: SceneManager_ctor_def)

lemma DefineObjectMaterials_fields [simp]:
  "m_pShaderManager (DefineObjectMaterials s) = m_pShaderManager s"
  "m_textureIDs (DefineObjectMaterials s) = m_textureIDs s"
  "m_loadedTextures (DefineObjectMaterials s) = m_loadedTextures s"
  "m_objectMaterials (DefineObjectMaterials s) = m_objectMaterials s @ [goldMaterial, woodMaterial]"
  "uninitialised (DefineObjectMaterials s) = uninitialised s"
  "gl_generated (DefineObjectMaterials s) = gl_generated s"
  "gl_calls (DefineObjectMaterials s) = gl_calls s"
  by (simp_all add: DefineObjectMaterials_def push_back_def Let_def)

lemma SetupSceneLights_NULL: "m_pShaderManager s = None \<Longrightarrow> SetupSceneLights s = None"
  by (simp add: SetupSceneLights_def arrow_def)

lemma SetupSceneLights_fields:
  assumes "m_pShaderManager s = Some p"
  shows "\<exists>s'. SetupSceneLights s = Some s' \<and> same_members s s' \<and>
     m_textureIDs s' = m_textureIDs s \<and> m_loadedTextures s' = m_loadedTextures s \<and>
     gl_generated s' = gl_generated s"
  using assms
  by (simp add: SetupSceneLights_def arrow_Some set_defs gl_emit same_members_def)

lemma PrepareScene_result:
  "\<exists>s. PrepareScene stbi (SceneManager_ctor (Some a) g) = Some s \<and> ready s \<and> uninitialised s = g"
proof -
  let ?s0 = "SceneManager_ctor (Some a) g"
  obtain s1 where 1: "LoadSceneTextures stbi ?s0 = Some s1" "same_members ?s0 s1"
      "0 \<le> m_loadedTextures s1" "m_loadedTextures s1 \<le> int (length (m_textureIDs s1))"
    using LoadSceneTextures_result[of ?s0 stbi] by auto
  let ?s2 = "DefineObjectMaterials s1"
  have p: "m_pShaderManager ?s2 = Some a" using 1(2) by (simp add: same_members_def)
  obtain s3 where 3: "SetupSceneLights ?s2 = Some s3" "same_members ?s2 s3"
      "m_textureIDs s3 = m_textureIDs ?s2" "m_loadedTextures s3 = m_loadedTextures ?s2"
    using SetupSceneLights_fields[OF p] by auto
  have "ready s3 \<and> uninitialised s3 = g"
    using 1 3 by (simp add: ready_def same_members_def)
  then show ?thesis
    using 1(1) 3(1) by (simp add: PrepareScene_def LoadMesh_call_def gl_emit)
qed

lemma PrepareScene_NULL: "PrepareScene stbi (SceneManager_ctor None g) = None"
proof -
  let ?s0 = "SceneManager_ctor None g"
  obtain s1 where 1: "LoadSceneTextures stbi ?s0 = Some s1" "same_members ?s0 s1"
    using LoadSceneTextures_result[of ?s0 stbi] by auto
  then have "SetupSceneLights (DefineObjectMaterials s1) = None"
    by (simp add: SetupSceneLights_NULL same_members_def)
  with 1(1) show ?thesis by (simp add: PrepareScene_def)
qed

lemma PrepareScene_ready: "PrepareScene stbi (SceneManager_ctor p g) = Some s \<Longrightarrow> ready s"
proof (cases p)
  case None
  assume "PrepareScene stbi (SceneManager_ctor p g) = Some s"
  with None show ?thesis by (simp add: PrepareScene_NULL)
next
  case (Some a)
  assume "PrepareScene stbi (SceneManager_ctor p g) = Some s"
  with Some PrepareScene_result[of stbi a g] show ?thesis by auto
qed

lemma Prepared_ready: "Prepared s \<Longrightarrow> ready s"
proof (induction rule: Prepared.induct)
  case (prepare stbi_load p g s)
  then show ?case by (rule PrepareScene_ready)
next
  case (render s s')
  then show ?case by (auto simp: RenderScene_emit)
qed

subsection \<open>The concrete inputs\<close>

lemma new_scene_fields [simp]:
  "m_pShaderManager new_scene = Some 1"
  "m_loadedTextures new_scene = 0"
  "length (m_textureIDs new_scene) = 16"
  "m_objectMaterials new_scene = []"
  "uninitialised new_scene = blank_material"
  "gl_generated new_scene = 0"
  "gl_calls new_scene = []"
  by (simp_all add: new_scene_def)

lemma example_prepared_Some: "PrepareScene rgb_files new_scene = Some example_prepared"
  using PrepareScene_result[of rgb_files 1 blank_material]
  by (auto simp: example_prepared_def new_scene_def)

lemma example_prepared_Prepared: "Prepared example_prepared"
  using example_prepared_Some unfolding new_scene_def by (rule Prepared.prepare)

lemma example_prepared_ready: "ready example_prepared"
  by (rule Prepared_ready[OF example_prepared_Prepared])

subsection \<open>Loading the five textures\<close>

lemma ctor_table: "m_textureIDs (SceneManager_ctor p g) =
   [unused_entry, unused_entry, unused_entry, unused_entry, unused_entry] @ replicate 11 unused_entry"
proof -
  have a: "replicate (5 + 11) unused_entry = replicate 5 unused_entry @ replicate 11 unused_entry"
    by (rule replicate_add)
  have b: "replicate 5 unused_entry =
      [unused_entry, unused_entry, unused_entry, unused_entry, unused_entry]"
    by (simp add: eval_nat_numeral)
  show ?thesis using a b by (simp add: SceneManager_ctor_def unused_entry_def)
qed

lemma LoadSceneTextures_ok:
  assumes f: "\<forall>f\<in>set [''textures/wood.jpg'', ''textures/ground.jpg'', ''textures/eraser.jpg'',
        ''textures/roof.jpg'', ''textures/nightsky.jpg''].
      \<exists>img. stbi f = Some img \<and> (colorChannels img = 3 \<or> colorChannels img = 4)"
  shows "\<exists>s'. LoadSceneTextures stbi (SceneManager_ctor p g) = Some s' \<and>
     same_members (SceneManager_ctor p g) s' \<and> m_loadedTextures s' = 5 \<and> gl_generated s' = 5 \<and>
     m_textureIDs s' =
       [\<lparr>tag = ''wood'', ID = 1\<rparr>, \<lparr>tag = ''ground'', ID = 2\<rparr>, \<lparr>tag = ''eraser'', ID = 3\<rparr>,
        \<lparr>tag = ''roof'', ID = 4\<rparr>, \<lparr>tag = ''nightsky'', ID = 5\<rparr>] @ replicate 11 unused_entry"
proof -
  let ?s = "SceneManager_ctor p g"
  from f obtain i1 i2 i3 i4 i5 where
    i1: "stbi ''textures/wood.jpg'' = Some i1" "colorChannels i1 = 3 \<or> colorChannels i1 = 4" and
    i2: "stbi ''textures/ground.jpg'' = Some i2" "colorChannels i2 = 3 \<or> colorChannels i2 = 4" and
    i3: "stbi ''textures/eraser.jpg'' = Some i3" "colorChannels i3 = 3 \<or> colorChannels i3 = 4" and
    i4: "stbi ''textures/roof.jpg'' = Some i4" "colorChannels i4 = 3 \<or> colorChannels i4 = 4" and
    i5: "stbi ''textures/nightsky.jpg'' = Some i5" "colorChannels i5 = 3 \<or> colorChannels i5 = 4"
    by (auto simp del: One_nat_def)
  obtain s1 where 1: "CreateGLTexture stbi ''textures/wood.jpg'' ''wood'' ?s = Some (True, s1)"
      "same_members ?s s1" "m_loadedTextures s1 = 1" "gl_generated s1 = 1"
      "m_textureIDs s1 = [\<lparr>tag = ''wood'', ID = 1\<rparr>, unused_entry, unused_entry, unused_entry,
         unused_entry] @ replicate 11 unused_entry"
    using CreateGLTexture_ok[where stbi=stbi and img=i1 and s="?s" and tg="''wood''"] i1 by (auto simp: ctor_table)
  obtain s2 where 2: "CreateGLTexture stbi ''textures/ground.jpg'' ''ground'' s1 = Some (True, s2)"
      "same_members s1 s2" "m_loadedTextures s2 = 2" "gl_generated s2 = 2"
      "m_textureIDs s2 = [\<lparr>tag = ''wood'', ID = 1\<rparr>, \<lparr>tag = ''ground'', ID = 2\<rparr>, unused_entry,
         unused_entry, unused_entry] @ replicate 11 unused_entry"
    using CreateGLTexture_ok[where stbi=stbi and img=i2 and s=s1 and tg="''ground''"] i2 1 by (auto simp: eval_nat_numeral)
  obtain s3 where 3: "CreateGLTexture stbi ''textures/eraser.jpg'' ''eraser'' s2 = Some (True, s3)"
      "same_members s2 s3" "m_loadedTextures s3 = 3" "gl_generated s3 = 3"
      "m_textureIDs s3 = [\<lparr>tag = ''wood'', ID = 1\<rparr>, \<lparr>tag = ''ground'', ID = 2\<rparr>,
         \<lparr>tag = ''eraser'', ID = 3\<rparr>, unused_entry, unused_entry] @ replicate 11 unused_entry"
    using CreateGLTexture_ok[where stbi=stbi and img=i3 and s=s2 and tg="''eraser''"] i3 2 by (auto simp: eval_nat_numeral)
  obtain s4 where 4: "CreateGLTexture stbi ''textures/roof.jpg'' ''roof'' s3 = Some (True, s4)"
      "same_members s3 s4" "m_loadedTextures s4 = 4" "gl_generated s4 = 4"
      "m_textureIDs s4 = [\<lparr>tag = ''wood'', ID = 1\<rparr>, \<lparr>tag = ''ground'', ID = 2\<rparr>,
         \<lparr>tag = ''eraser'', ID = 3\<rparr>, \<lparr>tag = ''roof'', ID = 4\<rparr>, unused_entry] @
         replicate 11 unused_entry"
    using CreateGLTexture_ok[where stbi=stbi and img=i4 and s=s3 and tg="''roof''"] i4 3 by (auto simp: eval_nat_numeral)
  obtain s5 where 5: "CreateGLTexture stbi ''textures/nightsky.jpg'' ''nightsky'' s4 = Some (True, s5)"
      "same_members s4 s5" "m_loadedTextures s5 = 5" "gl_generated s5 = 5"
      "m_textureIDs s5 = [\<lparr>tag = ''wood'', ID = 1\<rparr>, \<lparr>tag = ''ground'', ID = 2\<rparr>,
         \<lparr>tag = ''eraser'', ID = 3\<rparr>, \<lparr>tag = ''roof'', ID = 4\<rparr>, \<lparr>tag = ''nightsky'', ID = 5\<rparr>] @
         replicate 11 unused_entry"
    using CreateGLTexture_ok[where stbi=stbi and img=i5 and s=s4 and tg="''nightsky''"] i5 4 by (auto simp: eval_nat_numeral)
  obtain s6 where 6: "BindGLTextures_for 0 s5 = Some s6" "same_members s5 s6"
      "m_textureIDs s6 = m_textureIDs s5" "m_loadedTextures s6 = m_loadedTextures s5"
      "gl_generated s6 = gl_generated s5"
    using BindGLTextures_for_result[of 0 s5] 5 by auto
  have "LoadSceneTextures stbi ?s = Some s6"
    using 1(1) 2(1) 3(1) 4(1) 5(1) 6(1) by (simp add: LoadSceneTextures_def BindGLTextures_def)
  moreover have "same_members ?s s6"
    using 1(2) 2(2) 3(2) 4(2) 5(2) 6(2) by (simp add: same_members_def)
  ultimately show ?thesis using 5 6 by simp
qed

lemma PrepareScene_ok:
  assumes f: "\<forall>f\<in>set [''textures/wood.jpg'', ''textures/ground.jpg'', ''textures/eraser.jpg'',
        ''textures/roof.jpg'', ''textures/nightsky.jpg''].
      \<exists>img. stbi f = Some img \<and> (colorChannels img = 3 \<or> colorChannels img = 4)"
  shows "\<exists>s. PrepareScene stbi (SceneManager_ctor (Some a) g) = Some s \<and>
     m_loadedTextures s = 5 \<and> gl_generated s = 5 \<and> m_textureIDs s = scene_table"
proof -
  let ?s0 = "SceneManager_ctor (Some a) g"
  obtain s1 where 1: "LoadSceneTextures stbi ?s0 = Some s1" "same_members ?s0 s1"
      "m_loadedTextures s1 = 5" "gl_generated s1 = 5" "m_textureIDs s1 = scene_table"
    using LoadSceneTextures_ok[OF f, of "Some a" g] by (auto simp: scene_table_def)
  let ?s2 = "DefineObjectMaterials s1"
  have p: "m_pShaderManager ?s2 = Some a" using 1(2) by (simp add: same_members_def)
  obtain s3 where 3: "SetupSceneLights ?s2 = Some s3"
      "m_textureIDs s3 = m_textureIDs ?s2" "m_loadedTextures s3 = m_loadedTextures ?s2"
      "gl_generated s3 = gl_generated ?s2"
    using SetupSceneLights_fields[OF p] by auto
  show ?thesis
    using 1 3 by (simp add: PrepareScene_def LoadMesh_call_def)
qed

lemma scene_table_slots:
  assumes "m_loadedTextures s = 5" "m_textureIDs s = scene_table"
  shows "FindTextureSlot ''wood'' s = Some 0" "FindTextureSlot ''ground'' s = Some 1"
    "FindTextureSlot ''eraser'' s = Some 2" "FindTextureSlot ''roof'' s = Some 3"
    "FindTextureSlot ''nightsky'' s = Some 4"
  using assms
  by (simp_all add: FindTextureSlot_def FindTextureSlot_while.simps texture_at_def scene_table_def)

lemma rgb_files_ok:
  "\<forall>f\<in>set [''textures/wood.jpg'', ''textures/ground.jpg'', ''textures/eraser.jpg'',
        ''textures/roof.jpg'', ''textures/nightsky.jpg''].
      \<exists>img. rgb_files f = Some img \<and> (colorChannels img = 3 \<or> colorChannels img = 4)"
  by (simp add: rgb_files_def)

lemma example_prepared_textures:
  "m_loadedTextures example_prepared = 5" "gl_generated example_prepared = 5"
  "m_textureIDs example_prepared = scene_table"
  using PrepareScene_ok[OF rgb_files_ok, of 1 blank_material] example_prepared_Some
  by (auto simp: new_scene_def)

lemma example_prepared_uninitialised: "uninitialised example_prepared = blank_material"
  using PrepareScene_result[of rgb_files 1 blank_material] example_prepared_Some
  by (auto simp: new_scene_def)

lemma example_prepared_materials: "m_objectMaterials example_prepared = [goldMaterial, woodMaterial]"
  using example_prepared_ready by (simp add: ready_def)

lemma example_prepared_sink: "m_pShaderManager example_prepared \<noteq> None"
  using example_prepared_ready by (simp add: ready_def)

lemma frame_emit [simp]: "frame s (emit cs s) = draw_calls (uniforms (gl_calls s)) cs"
  by (simp add: frame_def)

section \<open>The claims\<close>




text \<open>
  C2, on the code: after PrepareScene the material registry holds the tags "metal" and
  "wood" only; no entry tagged "glass" is there, since DefineObjectMaterials fills in
  glassMaterial and never pushes it. The materials a RenderScene forwards are those of
  "wood", "wood" and "metal".
\<close>

theorem DefineObjectMaterials_registry:
  "PrepareScene rgb_files new_scene = Some example_prepared \<and>
   map material_tag (m_objectMaterials example_prepared) = [''metal'', ''wood''] \<and>
   ''glass'' \<notin> material_tag ` set (m_objectMaterials example_prepared) \<and>
   (\<exists>s'. RenderScene example_prepared = Some s' \<and>
      writes_to ''material.shininess'' (issued example_prepared s') =
        [UFloat (shininess woodMaterial), UFloat (shininess woodMaterial),
         UFloat (shininess goldMaterial)])"
  by (simp add: example_prepared_Some example_prepared_materials goldMaterial_def
      woodMaterial_def RenderScene_emit[OF example_prepared_ready] writes_to_def
      RenderScene_calls_def)

text \<open>
  C3, on the code: with the registry of the Prepared state (tags "metal" and "wood"),
  SetShaderMaterial with the tag "plastic", which no entry has, forwards three material
  uniforms to the sink, holding the contents of the uninitialised local material.
\<close>

theorem SetShaderMaterial_unmatched:
  "''plastic'' \<notin> material_tag ` set (m_objectMaterials example_prepared) \<and>
   (\<exists>s'. SetShaderMaterial ''plastic'' example_prepared = Some s' \<and>
      issued example_prepared s' =
        [Uniform ''material.diffuseColor'' (UVec3 (diffuseColor blank_material)),
         Uniform ''material.specularColor'' (UVec3 (specularColor blank_material)),
         Uniform ''material.shininess'' (UFloat (shininess blank_material))])"
proof -
  have n: "\<forall>m\<in>set (m_objectMaterials example_prepared). material_tag m \<noteq> ''plastic''"
    by (simp add: example_prepared_materials goldMaterial_def woodMaterial_def)
  have "FindMaterial ''plastic'' blank_material example_prepared = (True, blank_material)"
    using no_match_while[OF n, of 0 False blank_material]
    by (simp add: FindMaterial_def example_prepared_materials)
  moreover obtain p where "m_pShaderManager example_prepared = Some p"
    using example_prepared_sink by auto
  ultimately show ?thesis
    by (simp add: SetShaderMaterial_def example_prepared_uninitialised
        example_prepared_materials arrow_Some set_defs gl_emit goldMaterial_def woodMaterial_def)
qed

text \<open>
  C4: for every tag, FindMaterial returns true whenever the material registry is not
  empty, whether or not an entry has the tag, and false when the registry is empty; when
  no entry has the tag, the caller's material parameter keeps the contents it had.
\<close>

theorem FindMaterial_flag:
  "fst (FindMaterial tg material s) = (m_objectMaterials s \<noteq> []) \<and>
   (tg \<notin> material_tag ` set (m_objectMaterials s) \<longrightarrow>
      snd (FindMaterial tg material s) = material)"
proof -
  have "tg \<notin> material_tag ` set (m_objectMaterials s) \<Longrightarrow>
      \<forall>m\<in>set (m_objectMaterials s). material_tag m \<noteq> tg" by auto
  then show ?thesis by (auto simp: FindMaterial_def no_match_while)
qed

theorem FindMaterial_flag_witness:
  "fst (FindMaterial ''glass'' blank_material example_prepared) = True \<and>
   m_objectMaterials example_prepared \<noteq> [] \<and>
   ''glass'' \<notin> material_tag ` set (m_objectMaterials example_prepared) \<and>
   snd (FindMaterial ''glass'' blank_material example_prepared) = blank_material \<and>
   fst (FindMaterial ''glass'' blank_material new_scene) = False"
proof -
  have m: "m_objectMaterials example_prepared = [goldMaterial, woodMaterial]"
    using example_prepared_ready by (simp add: ready_def)
  have n: "''glass'' \<notin> material_tag ` set (m_objectMaterials example_prepared)"
    by (simp add: m goldMaterial_def woodMaterial_def)
  show ?thesis
    using FindMaterial_flag[of "''glass''" blank_material example_prepared]
      FindMaterial_flag[of "''glass''" blank_material new_scene] n
    by (simp add: m)
qed

text \<open>
  C5: when the five image files of the scene are decoded with 3 or 4 channels, PrepareScene
  on a new scene manager with a shader manager leaves 5 loaded textures, tagged "wood",
  "ground", "eraser", "roof", "nightsky" in this order, and FindTextureSlot returns the
  slots 0, 1, 2, 3, 4 for them.
\<close>

theorem PrepareScene_textures:
  assumes "\<forall>f\<in>set [''textures/wood.jpg'', ''textures/ground.jpg'', ''textures/eraser.jpg'',
        ''textures/roof.jpg'', ''textures/nightsky.jpg''].
      \<exists>img. stbi_load f = Some img \<and> (colorChannels img = 3 \<or> colorChannels img = 4)"
  shows "\<exists>s. PrepareScene stbi_load (SceneManager_ctor (Some a) g) = Some s \<and>
     m_loadedTextures s = 5 \<and>
     map tag (take 5 (m_textureIDs s)) = [''wood'', ''ground'', ''eraser'', ''roof'', ''nightsky''] \<and>
     FindTextureSlot ''wood'' s = Some 0 \<and> FindTextureSlot ''ground'' s = Some 1 \<and>
     FindTextureSlot ''eraser'' s = Some 2 \<and> FindTextureSlot ''roof'' s = Some 3 \<and>
     FindTextureSlot ''nightsky'' s = Some 4"
proof -
  obtain s where s: "PrepareScene stbi_load (SceneManager_ctor (Some a) g) = Some s"
      "m_loadedTextures s = 5" "m_textureIDs s = scene_table"
    using PrepareScene_ok[OF assms, of a g] by auto
  have "map tag (take 5 (m_textureIDs s)) = [''wood'', ''ground'', ''eraser'', ''roof'', ''nightsky'']"
    by (simp add: s(3) scene_table_def)
  with s scene_table_slots[OF s(2) s(3)] show ?thesis by simp
qed

theorem PrepareScene_textures_witness:
  "\<exists>s. PrepareScene rgb_files new_scene = Some s \<and> m_loadedTextures s = 5 \<and>
     map tag (take 5 (m_textureIDs s)) = [''wood'', ''ground'', ''eraser'', ''roof'', ''nightsky''] \<and>
     FindTextureSlot ''wood'' s = Some 0 \<and> FindTextureSlot ''nightsky'' s = Some 4"
proof -
  have "\<forall>f\<in>set [''textures/wood.jpg'', ''textures/ground.jpg'', ''textures/eraser.jpg'',
        ''textures/roof.jpg'', ''textures/nightsky.jpg''].
      \<exists>img. rgb_files f = Some img \<and> (colorChannels img = 3 \<or> colorChannels img = 4)"
    by (simp add: rgb_files_def)
  from PrepareScene_textures[OF this, of 1 blank_material] show ?thesis
    by (auto simp: new_scene_def)
qed

text \<open>
  C6: for all scale vectors, rotations in degrees and translations, SetTransformations on
  a scene manager with a shader manager makes one call, which sets the uniform "model" to
  the matrix \<open>T \<cdot> Rz \<cdot> Ry \<cdot> Rx \<cdot> S\<close> of the specification (the row-by-column product of
  the usual matrices), the angles converted to radians; with scale (1,1,1), no rotation
  and no translation the matrix is the identity, and with scale (0.3,3,0.3), a rotation
  of 90 degrees about Z and the translation (0.5,1.5,3.5) it has the columns
  (0,0.3,0,0), (-3,0,0,0), (0,0,0.3,0) and (0.5,1.5,3.5,1).
\<close>

theorem SetTransformations_model:
  "m_pShaderManager s = Some p \<Longrightarrow>
   SetTransformations scaleXYZ rx ry rz positionXYZ s =
     s\<lparr>gl_calls := gl_calls s @
        [Uniform ''model'' (UMat4
          (spec_times (spec_T positionXYZ)
            (spec_times (spec_Rz (rz * pi / 180))
              (spec_times (spec_Ry (ry * pi / 180))
                (spec_times (spec_Rx (rx * pi / 180)) (spec_S scaleXYZ))))))]\<rparr> \<and>
   SetTransformations (Vec3 1 1 1) 0 0 0 (Vec3 0 0 0) s =
     s\<lparr>gl_calls := gl_calls s @
        [Uniform ''model''
          (UMat4 (Mat4 (Vec4 1 0 0 0) (Vec4 0 1 0 0) (Vec4 0 0 1 0) (Vec4 0 0 0 1)))]\<rparr> \<and>
   SetTransformations (Vec3 0.3 3 0.3) 0 0 90 (Vec3 0.5 1.5 3.5) s =
     s\<lparr>gl_calls := gl_calls s @
        [Uniform ''model''
          (UMat4 (Mat4 (Vec4 0 0.3 0 0) (Vec4 (- 3) 0 0 0) (Vec4 0 0 0.3 0)
             (Vec4 0.5 1.5 3.5 1)))]\<rparr>"
proof -
  assume p: "m_pShaderManager s = Some p"
  have general: "spec_model scaleXYZ rx ry rz positionXYZ =
      spec_times (spec_T positionXYZ)
        (spec_times (spec_Rz (rz * pi / 180))
          (spec_times (spec_Ry (ry * pi / 180))
            (spec_times (spec_Rx (rx * pi / 180)) (spec_S scaleXYZ))))"
    by (simp add: spec_model_def spec_radians_def)
  have "SetTransformations scaleXYZ rx ry rz positionXYZ s =
      s\<lparr>gl_calls := gl_calls s @
        [Uniform ''model'' (UMat4 (spec_model scaleXYZ rx ry rz positionXYZ))]\<rparr>"
    using p by (simp add: SetTransformations_spec gl_def)
  moreover have "SetTransformations (Vec3 1 1 1) 0 0 0 (Vec3 0 0 0) s =
      s\<lparr>gl_calls := gl_calls s @ [Uniform ''model'' (UMat4 mat4_identity)]\<rparr>"
    using p by (simp add: SetTransformations_spec gl_def spec_model_identity)
  moreover have "SetTransformations (Vec3 0.3 3 0.3) 0 0 90 (Vec3 0.5 1.5 3.5) s =
      s\<lparr>gl_calls := gl_calls s @
        [Uniform ''model'' (UMat4 (spec_model (Vec3 0.3 3 0.3) 0 0 90 (Vec3 0.5 1.5 3.5)))]\<rparr>"
    using p by (simp add: SetTransformations_spec gl_def)
  ultimately show ?thesis
    by (simp only: general spec_model_pencil mat4_identity_def simp_thms)
qed

theorem SetTransformations_model_witness:
  "m_pShaderManager new_scene = Some 1 \<and>
   gl_calls (SetTransformations (Vec3 0.3 3 0.3) 0 0 90 (Vec3 0.5 1.5 3.5) new_scene) =
     [Uniform ''model''
       (UMat4 (Mat4 (Vec4 0 0.3 0 0) (Vec4 (- 3) 0 0 0) (Vec4 0 0 0.3 0) (Vec4 0.5 1.5 3.5 1)))] \<and>
   gl_calls (SetTransformations (Vec3 1 1 1) 0 0 0 (Vec3 0 0 0) new_scene) =
     [Uniform ''model'' (UMat4 (Mat4 (Vec4 1 0 0 0) (Vec4 0 1 0 0) (Vec4 0 0 1 0) (Vec4 0 0 0 1)))]"
  using SetTransformations_model[of new_scene 1 "Vec3 1 1 1" 0 0 0 "Vec3 0 0 0", THEN conjunct2]
  by simp

text \<open>
  C7: for an image that is decoded and has a channel count other than 3 and 4,
  CreateGLTexture returns false, and the count of loaded textures and every entry of the
  texture table are as before the call.
\<close>

theorem CreateGLTexture_channels:
  "stbi_load filename = Some img \<Longrightarrow> colorChannels img \<noteq> 3 \<Longrightarrow> colorChannels img \<noteq> 4 \<Longrightarrow>
   \<exists>s'. CreateGLTexture stbi_load filename tg s = Some (False, s') \<and>
        m_loadedTextures s' = m_loadedTextures s \<and> m_textureIDs s' = m_textureIDs s"
  by (simp add: CreateGLTexture_def Let_def split_beta)

theorem CreateGLTexture_channels_witness:
  "\<exists>s'. CreateGLTexture grey_files ''textures/wood.jpg'' ''wood'' new_scene = Some (False, s') \<and>
        m_loadedTextures s' = 0 \<and> m_textureIDs s' = m_textureIDs new_scene"
  using CreateGLTexture_channels[of grey_files "''textures/wood.jpg''"
      "\<lparr>width = 256, height = 256, colorChannels = 1\<rparr>" "''wood''" new_scene]
  by (simp add: grey_files_def)

text \<open>
  C8, on the code: DestroyGLTextures in the Prepared state with five loaded textures
  (names 1 to 5) calls glGenTextures five times and deletes nothing: the context hands
  out the new names 6 to 10, which overwrite the IDs of the five entries.
\<close>

theorem DestroyGLTextures_generates:
  "map ID (take 5 (m_textureIDs example_prepared)) = [1, 2, 3, 4, 5] \<and>
   (\<exists>s'. DestroyGLTextures example_prepared = Some s' \<and>
      issued example_prepared s' =
        [GenTextures 6, GenTextures 7, GenTextures 8, GenTextures 9, GenTextures 10] \<and>
      map ID (take 5 (m_textureIDs s')) = [6, 7, 8, 9, 10])"
  by (simp add: DestroyGLTextures_def DestroyGLTextures_for.simps texture_at_def issued_def
      example_prepared_textures scene_table_def)

text \<open>
  C9: SetupSceneLights on a scene manager with a shader manager writes each of the keys
  directionalLight.ambient, directionalLight.diffuse and directionalLight.specular twice,
  first with the values of the first definition and then with those of the second, and
  afterwards the keys hold the second definition's values (1.08,1.08,1.08),
  (2.25,2.25,2.25) and (1.98,1.98,1.98), not the first's.
\<close>

theorem SetupSceneLights_directional:
  "m_pShaderManager s = Some p \<Longrightarrow>
   \<exists>s'. SetupSceneLights s = Some s' \<and>
     writes_to ''directionalLight.ambient'' (issued s s') =
       [UVec3 (Vec3 0.8 0.8 0.8), UVec3 (Vec3 1.08 1.08 1.08)] \<and>
     writes_to ''directionalLight.diffuse'' (issued s s') =
       [UVec3 (Vec3 1.5 1.5 1.5), UVec3 (Vec3 2.25 2.25 2.25)] \<and>
     writes_to ''directionalLight.specular'' (issued s s') =
       [UVec3 (Vec3 1.5 1.5 1.5), UVec3 (Vec3 1.98 1.98 1.98)] \<and>
     uniforms (gl_calls s') ''directionalLight.ambient'' = Some (UVec3 (Vec3 1.08 1.08 1.08)) \<and>
     uniforms (gl_calls s') ''directionalLight.diffuse'' = Some (UVec3 (Vec3 2.25 2.25 2.25)) \<and>
     uniforms (gl_calls s') ''directionalLight.specular'' = Some (UVec3 (Vec3 1.98 1.98 1.98)) \<and>
     uniforms (gl_calls s') ''directionalLight.ambient'' \<noteq> Some (UVec3 (Vec3 0.8 0.8 0.8)) \<and>
     uniforms (gl_calls s') ''directionalLight.diffuse'' \<noteq> Some (UVec3 (Vec3 1.5 1.5 1.5)) \<and>
     uniforms (gl_calls s') ''directionalLight.specular'' \<noteq> Some (UVec3 (Vec3 1.5 1.5 1.5))"
  by (simp add: SetupSceneLights_emit uniforms_def writes_to_def)

theorem SetupSceneLights_directional_witness:
  "m_pShaderManager new_scene = Some 1 \<and>
   (\<exists>s'. SetupSceneLights new_scene = Some s' \<and>
     uniforms (gl_calls s') ''directionalLight.ambient'' = Some (UVec3 (Vec3 1.08 1.08 1.08)) \<and>
     uniforms (gl_calls s') ''directionalLight.diffuse'' = Some (UVec3 (Vec3 2.25 2.25 2.25)) \<and>
     uniforms (gl_calls s') ''directionalLight.specular'' = Some (UVec3 (Vec3 1.98 1.98 1.98)))"
  using SetupSceneLights_directional[of new_scene 1] by auto

text \<open>
  C10: in every RenderScene in the Prepared state, the step of the pencil tip (a cone)
  sets the material uniforms to the "metal" values, the step of the eraser (a cylinder)
  sets the model matrix, the texture and the UV scale only, and its draw call is issued
  while the material uniforms hold the "metal" values; the step of the backdrop (a plane)
  sets the model matrix, the texture and the UV scale only and is drawn under the "wood"
  material values set by the earlier steps.
\<close>

theorem RenderScene_material_persists:
  "Prepared s \<Longrightarrow>
   \<exists>s'. RenderScene s = Some s' \<and>
     fst (frame s s' ! 3) = Cone \<and>
     uniform_names (steps (issued s s') ! 3) =
       [''model'', ''material.diffuseColor'', ''material.specularColor'', ''material.shininess'',
        ''UVscale'', ''bUseTexture'', ''objectColor''] \<and>
     writes_to ''material.diffuseColor'' (steps (issued s s') ! 3) = [UVec3 (diffuseColor goldMaterial)] \<and>
     fst (frame s s' ! 4) = Cylinder \<and>
     uniform_names (steps (issued s s') ! 4) =
       [''model'', ''bUseTexture'', ''objectTexture'', ''UVscale''] \<and>
     snd (frame s s' ! 4) ''material.diffuseColor'' = Some (UVec3 (diffuseColor goldMaterial)) \<and>
     snd (frame s s' ! 4) ''material.specularColor'' = Some (UVec3 (specularColor goldMaterial)) \<and>
     snd (frame s s' ! 4) ''material.shininess'' = Some (UFloat (shininess goldMaterial)) \<and>
     fst (frame s s' ! 2) = Plane \<and>
     uniform_names (steps (issued s s') ! 2) =
       [''model'', ''bUseTexture'', ''objectTexture'', ''UVscale''] \<and>
     snd (frame s s' ! 2) ''material.diffuseColor'' = Some (UVec3 (diffuseColor woodMaterial)) \<and>
     snd (frame s s' ! 2) ''material.specularColor'' = Some (UVec3 (specularColor woodMaterial)) \<and>
     snd (frame s s' ! 2) ''material.shininess'' = Some (UFloat (shininess woodMaterial))"
proof -
  assume "Prepared s"
  then have r: "ready s" by (rule Prepared_ready)
  show ?thesis
    by (simp add: RenderScene_emit[OF r] RenderScene_calls_def steps_def uniform_names_def
        writes_to_def goldMaterial_def woodMaterial_def)
qed

theorem RenderScene_material_persists_witness:
  "Prepared example_prepared \<and>
   (\<exists>s'. RenderScene example_prepared = Some s' \<and>
     fst (frame example_prepared s' ! 4) = Cylinder \<and>
     snd (frame example_prepared s' ! 4) ''material.shininess'' = Some (UFloat 52) \<and>
     fst (frame example_prepared s' ! 2) = Plane \<and>
     snd (frame example_prepared s' ! 2) ''material.shininess'' = Some (UFloat 0.1))"
  using RenderScene_material_persists[OF example_prepared_Prepared] example_prepared_Prepared
  by (auto simp: goldMaterial_def woodMaterial_def)

end
